theory Spec2Isabelle
  imports Complex_Main "HOL-Library.Sublist"
begin

section \<open>Latent-space interpolation script of the point-cloud autoencoder\<close>

text \<open>
  A shallow embedding of \<^verbatim>\<open>autoencoder_lr_interpolation.py\<close>. The script is a
  straight-line program; its numeric kernels are the three expressions assigned to
  \<^verbatim>\<open>shp_interp\<close>, \<^verbatim>\<open>col_interp\<close> and \<^verbatim>\<open>az\<close> inside the nested
  shape/step loop.

  Conventions of the model:
  \<^item> Python \<^verbatim>\<open>float\<close> and numpy \<^verbatim>\<open>float64\<close> values are idealised as
    \<^typ>\<open>real\<close>: rounding, infinities and NaN are outside the model.
  \<^item> Loop indices and counters that only ever hold values of \<^verbatim>\<open>range(...)\<close>
    are \<^typ>\<open>nat\<close>; command-line integers are \<^typ>\<open>int\<close>.
  \<^item> An exception is a value \<open>Inl e\<close> of a sum type, \<^verbatim>\<open>exit()\<close> included
    (it raises \<^verbatim>\<open>SystemExit\<close>).
\<close>

subsection \<open>Exceptions\<close>

datatype py_error =
    AttributeError
  | TypeError
  | ValueError
  | IndexError
  | ZeroDivisionError
  | KeyError
  | NameError
  | ImportError
  | IOError
  | EmptyDataError
  | SystemExit

definition err_bind :: "py_error + 'a \<Rightarrow> ('a \<Rightarrow> py_error + 'b) \<Rightarrow> py_error + 'b" where
  "err_bind m f = (case m of Inl e \<Rightarrow> Inl e | Inr a \<Rightarrow> f a)"

subsection \<open>The variational flag (lines 104-110)\<close>

text \<open>
  \<^verbatim>\<open>str.lower\<close> on the characters that matter here: the upper-case ASCII letters
  move down by 32, every other byte stays. (No non-ASCII code point lower-cases to one of
  the letters of \<^verbatim>\<open>"true"\<close>, and no byte of a multi-byte UTF-8 sequence is an
  ASCII letter.)
\<close>

definition lower_char :: "char \<Rightarrow> char" where
  "lower_char c =
     (let n = (of_char c :: nat) in if 65 \<le> n \<and> n \<le> 90 then char_of (n + 32) else c)"

definition lower :: "string \<Rightarrow> string" where
  "lower s = map lower_char s"

text \<open>
  \<^verbatim>\<open>args.VAE\<close> is \<^verbatim>\<open>None\<close> when the option is absent. The method call
  \<^verbatim>\<open>args.VAE.lower()\<close> raises \<^verbatim>\<open>AttributeError\<close> on \<^verbatim>\<open>None\<close>.
\<close>

definition lower_method :: "string option \<Rightarrow> py_error + string" where
  "lower_method v = (case v of None \<Rightarrow> Inl AttributeError | Some s \<Rightarrow> Inr (lower s))"

definition flagVAE :: "string option \<Rightarrow> py_error + bool" where
  "flagVAE vae =
     (if vae = None then Inr False
      else err_bind (lower_method vae) (\<lambda>s.
        if s = ''true'' then Inr True
        else Inr False))"

subsection \<open>Effects\<close>

text \<open>
  What the script does to the outside world, in order. \<open>Random_choice n size replace idx\<close>
  is a call of \<^verbatim>\<open>np.random.choice\<close> on the global generator and the sample it
  returns. \<open>Call_plot3 name az col\<close> is the
  call \<^verbatim>\<open>plot3(pc_interpolated, pc_name, az=az, col=col_interp)\<close> of line 399 with
  its arguments evaluated; \<open>Screenshot\<close> is the PNG that the body of \<^verbatim>\<open>plot3\<close>
  writes, \<open>Write_html\<close> the file that \<^verbatim>\<open>PC_html\<close> writes.
\<close>

datatype event =
    Putenv string string
  | System string
  | Print string
  | Read_csv string
  | Random_choice nat nat bool "nat list"
  | To_csv string "string list"
  | Import_module string
  | Restore_graph string string
  | Write_html string
  | Call_plot3 string real "real list"
  | Screenshot string

text \<open>A run: the effects so far, and an exception or a value.\<close>

type_synonym 'a run = "event list \<times> (py_error + 'a)"

definition ret :: "'a \<Rightarrow> 'a run" where
  "ret a = ([], Inr a)"

definition raise :: "py_error \<Rightarrow> 'a run" where
  "raise e = ([], Inl e)"

definition emit :: "event \<Rightarrow> unit run" where
  "emit ev = ([ev], Inr ())"

definition lift_err :: "py_error + 'a \<Rightarrow> 'a run" where
  "lift_err m = ([], m)"

definition run_bind :: "'a run \<Rightarrow> ('a \<Rightarrow> 'b run) \<Rightarrow> 'b run" where
  "run_bind m f =
     (case snd m of
        Inl e \<Rightarrow> (fst m, Inl e)
      | Inr a \<Rightarrow> (fst m @ fst (f a), snd (f a)))"

text \<open>A \<^verbatim>\<open>for\<close> loop over a list, threading the variables it assigns.\<close>

fun for_each :: "'a list \<Rightarrow> ('a \<Rightarrow> 's \<Rightarrow> 's run) \<Rightarrow> 's \<Rightarrow> 's run" where
  "for_each [] body s = ret s"
| "for_each (x # xs) body s = run_bind (body x s) (for_each xs body)"

subsection \<open>Strings\<close>

fun str_nat :: "nat \<Rightarrow> string" where
  "str_nat n =
     (if n < 10 then [char_of (48 + n)]
      else str_nat (n div 10) @ [char_of (48 + n mod 10)])"

declare str_nat.simps [simp del]

definition str_int :: "int \<Rightarrow> string" where
  "str_int i = (if i < 0 then CHR ''-'' # str_nat (nat (- i)) else str_nat (nat i))"

text \<open>\<^verbatim>\<open>'{}'.format(v)\<close> for an optional integer argument of the command line.\<close>

definition format_arg :: "int option \<Rightarrow> string" where
  "format_arg v = (case v of None \<Rightarrow> ''None'' | Some i \<Rightarrow> str_int i)"

text \<open>\<^verbatim>\<open>str.zfill\<close> on the decimal form of a non-negative number (no sign to skip).\<close>

definition zfill :: "string \<Rightarrow> nat \<Rightarrow> string" where
  "zfill s width = replicate (width - length s) CHR ''0'' @ s"

subsection \<open>Calling a Python function\<close>

text \<open>
  Binding the arguments of a call to the parameters of a \<^verbatim>\<open>def\<close> without
  \<^verbatim>\<open>*args\<close> or \<^verbatim>\<open>**kwargs\<close>: \<open>params\<close> are the parameter names in order, the
  first \<open>n_required\<close> of them have no default; the call passes \<open>n_pos\<close> positional
  arguments and the keyword arguments \<open>keywords\<close>. Python raises \<^verbatim>\<open>TypeError\<close>
  before the body runs when there are too many positional arguments, when a keyword
  names no parameter, when a parameter gets two values, or when a required one gets none.
\<close>

definition bind_call :: "string list \<Rightarrow> nat \<Rightarrow> nat \<Rightarrow> string list \<Rightarrow> py_error + unit" where
  "bind_call params n_required n_pos keywords =
     (if length params < n_pos then Inl TypeError
      else if list_ex (\<lambda>k. k \<notin> set params) keywords then Inl TypeError
      else if list_ex (\<lambda>k. k \<in> set (take n_pos params)) keywords then Inl TypeError
      else if list_ex (\<lambda>p. p \<notin> set (take n_pos params) \<and> p \<notin> set keywords)
                (take n_required params) then Inl TypeError
      else Inr ())"

subsection \<open>Point clouds and the plotting functions (lines 124-206)\<close>

type_synonym point = "real \<times> real \<times> real"

type_synonym cloud = "point list"

text \<open>
  \<^verbatim>\<open>def plot3(PC, Filename, colorname='tan')\<close>: the body renders off screen and
  saves the screenshot under \<^verbatim>\<open>Filename\<close>. A plotting function is modelled by the
  files it writes and how it ends; it is given the positional arguments and the names of
  the keyword arguments of the call.
\<close>

type_synonym plotter = "cloud \<Rightarrow> string \<Rightarrow> string list \<Rightarrow> string list \<times> (py_error + unit)"

definition plot3_params :: "string list" where
  "plot3_params = [''PC'', ''Filename'', ''colorname'']"

definition plot3 :: plotter where
  "plot3 PC Filename keywords =
     (case bind_call plot3_params 2 2 keywords of
        Inl e \<Rightarrow> ([], Inl e)
      | Inr _ \<Rightarrow> ([Filename], Inr ()))"

definition rendered :: "string list \<times> (py_error + unit) \<Rightarrow> unit run" where
  "rendered r = (map Screenshot (fst r), snd r)"

text \<open>
  \<^verbatim>\<open>def PC_html(PC1, PC2, figname)\<close>, always called with three positional
  arguments: plotly writes the file \<^verbatim>\<open>figname\<close>.
\<close>

definition PC_html :: "cloud \<Rightarrow> cloud \<Rightarrow> string \<Rightarrow> unit run" where
  "PC_html PC1 PC2 figname = emit (Write_html figname)"

subsection \<open>Indexing\<close>

text \<open>\<^verbatim>\<open>a[i]\<close> for a non-negative index: \<^verbatim>\<open>IndexError\<close> out of range.\<close>

definition row :: "'a list \<Rightarrow> nat \<Rightarrow> py_error + 'a" where
  "row a i = (if i < length a then Inr (a ! i) else Inl IndexError)"

subsection \<open>True division\<close>

text \<open>
  Python's \<^verbatim>\<open>/\<close> on numbers: the quotient as a float, and
  \<^verbatim>\<open>ZeroDivisionError\<close> for a zero divisor (\<^verbatim>\<open>np.float\<close> is the built-in
  \<^verbatim>\<open>float\<close>, so the quotients of the loop are Python divisions, not numpy ones).
\<close>

definition truediv :: "real \<Rightarrow> real \<Rightarrow> py_error + real" where
  "truediv a b = (if b = 0 then Inl ZeroDivisionError else Inr (a / b))"

subsection \<open>Array arithmetic\<close>

text \<open>
  A row \<^verbatim>\<open>latent_rep_total[i,:,:]\<close> (shape \<open>(L, 1)\<close>) or
  \<^verbatim>\<open>color_shape[i,:]\<close> (shape \<open>(3)\<close>) is the list of its entries. Rows of one
  array have one shape, so the element-wise sum only ever meets lists of equal length.
\<close>

definition arr_scale :: "real list \<Rightarrow> real \<Rightarrow> real list" where
  "arr_scale v c = map (\<lambda>x. x * c) v"

definition scale_arr :: "real \<Rightarrow> real list \<Rightarrow> real list" where
  "scale_arr c v = map (\<lambda>x. c * x) v"

definition arr_add :: "real list \<Rightarrow> real list \<Rightarrow> real list" where
  "arr_add u v = map2 (+) u v"

subsection \<open>The interpolation kernels (lines 362-372)\<close>

text \<open>
  \<^verbatim>\<open>shp_interp = latent_rep_total[i,:,:]*(1-np.float(j)/(n_steps_interp-1)) +
  latent_rep_total[i+1,:,:]*(np.float(j)/(n_steps_interp-1))\<close>, evaluated left to right:
  each indexing and each quotient can raise.
\<close>

definition shp_interp :: "real list list \<Rightarrow> nat \<Rightarrow> nat \<Rightarrow> nat \<Rightarrow> py_error + real list" where
  "shp_interp latent_rep_total i j n_steps_interp =
     err_bind (row latent_rep_total i) (\<lambda>A.
     err_bind (truediv (real j) (real_of_int (int n_steps_interp - 1))) (\<lambda>t1.
     err_bind (row latent_rep_total (i + 1)) (\<lambda>B.
     err_bind (truediv (real j) (real_of_int (int n_steps_interp - 1))) (\<lambda>t2.
       Inr (arr_add (arr_scale A (1 - t1)) (arr_scale B t2))))))"

text \<open>
  \<^verbatim>\<open>col_interp = 0.5*(color_shape[i,:]*(1-np.float(j)/(n_steps_interp-1)) +
  color_shape[i+1,:]*(np.float(j)/(n_steps_interp-1)))\<close>.
\<close>

definition col_interp :: "real list list \<Rightarrow> nat \<Rightarrow> nat \<Rightarrow> nat \<Rightarrow> py_error + real list" where
  "col_interp color_shape i j n_steps_interp =
     err_bind (row color_shape i) (\<lambda>C1.
     err_bind (truediv (real j) (real_of_int (int n_steps_interp - 1))) (\<lambda>t1.
     err_bind (row color_shape (i + 1)) (\<lambda>C2.
     err_bind (truediv (real j) (real_of_int (int n_steps_interp - 1))) (\<lambda>t2.
       Inr (scale_arr (1/2) (arr_add (arr_scale C1 (1 - t1)) (arr_scale C2 t2)))))))"

subsection \<open>The camera azimuth (line 396)\<close>

text \<open>
  \<^verbatim>\<open>az = (90-ar_range/2) + (cntr/(n_shapes*n_steps_interp))*ar_range\<close>, all operands
  Python integers, both quotients true divisions (Python 3).
\<close>

definition ar_range :: nat where
  "ar_range = 180"

definition az :: "nat \<Rightarrow> nat \<Rightarrow> nat \<Rightarrow> nat \<Rightarrow> py_error + real" where
  "az width cntr n_shapes n_steps_interp =
     err_bind (truediv (real width) 2) (\<lambda>h.
     err_bind (truediv (real cntr) (real (n_shapes * n_steps_interp))) (\<lambda>q.
       Inr ((90 - h) + q * real width)))"

subsection \<open>The interpolation loop (lines 357-399)\<close>

text \<open>
  The body of the inner loop for shape \<open>i\<close> and step \<open>j\<close>; the loop variable it
  assigns is \<^verbatim>\<open>cntr\<close>. \<open>decode\<close> is the restored network
  (\<^verbatim>\<open>sess.run(point_clouds, ...)\<close>, reshaped to rows of three), \<open>plot\<close> is what the
  global name \<^verbatim>\<open>plot3\<close> is bound to, called with two positional arguments and the
  keywords \<^verbatim>\<open>az\<close> and \<^verbatim>\<open>col\<close>.
\<close>

definition pc_name :: "string \<Rightarrow> nat \<Rightarrow> nat \<Rightarrow> string" where
  "pc_name dir_pc_plot i j =
     dir_pc_plot @ ''/PC_'' @ zfill (str_nat i) 5 @ ''_'' @ zfill (str_nat j) 3 @ ''.png''"

definition html_name :: "string \<Rightarrow> nat \<Rightarrow> string" where
  "html_name dir_pc_plot i = dir_pc_plot @ ''/PC_'' @ str_nat i @ ''_reconstruction.html''"

definition frame :: "plotter \<Rightarrow> (real list \<Rightarrow> cloud) \<Rightarrow>
    real list list \<Rightarrow> real list list \<Rightarrow> cloud list \<Rightarrow> nat \<Rightarrow> string \<Rightarrow>
    nat \<Rightarrow> nat \<Rightarrow> nat \<Rightarrow> nat run" where
  "frame plot decode latent_rep_total color_shape vis_set n_steps_interp dir_pc_plot i j cntr =
     run_bind (lift_err (shp_interp latent_rep_total i j n_steps_interp)) (\<lambda>shp.
     run_bind (lift_err (col_interp color_shape i j n_steps_interp)) (\<lambda>col.
     let pc_interpolated = decode shp in
     run_bind (if j = 0
               then run_bind (lift_err (row vis_set i)) (\<lambda>pc.
                      PC_html pc pc_interpolated (html_name dir_pc_plot i))
               else ret ()) (\<lambda>_.
     run_bind (lift_err (az ar_range cntr (length vis_set) n_steps_interp)) (\<lambda>a.
     let cntr = cntr + 1 in
     run_bind (emit (Call_plot3 (pc_name dir_pc_plot i j) a col)) (\<lambda>_.
     run_bind (rendered (plot pc_interpolated (pc_name dir_pc_plot i j) [''az'', ''col''])) (\<lambda>_.
       ret cntr))))))"

text \<open>
  \<^verbatim>\<open>cntr = 0; n_shapes = vis_set.shape[0]\<close>, then the two nested \<^verbatim>\<open>for\<close> loops
  over \<^verbatim>\<open>range(n_shapes)\<close> and \<^verbatim>\<open>range(n_steps_interp)\<close>.
\<close>

definition interp_loop :: "plotter \<Rightarrow> (real list \<Rightarrow> cloud) \<Rightarrow>
    real list list \<Rightarrow> real list list \<Rightarrow> cloud list \<Rightarrow> nat \<Rightarrow> string \<Rightarrow> nat run" where
  "interp_loop plot decode latent_rep_total color_shape vis_set n_steps_interp dir_pc_plot =
     for_each [0..<length vis_set] (\<lambda>i.
       for_each [0..<n_steps_interp] (\<lambda>j.
         frame plot decode latent_rep_total color_shape vis_set n_steps_interp dir_pc_plot i j)) 0"

text \<open>
  Observations on a run: the azimuths passed to \<^verbatim>\<open>plot3\<close>, the PNG files
  written, and the samples drawn from the generator.
\<close>

fun az_calls :: "event list \<Rightarrow> real list" where
  "az_calls [] = []"
| "az_calls (Call_plot3 name a col # es) = a # az_calls es"
| "az_calls (e # es) = az_calls es"

fun screenshots :: "event list \<Rightarrow> string list" where
  "screenshots [] = []"
| "screenshots (Screenshot name # es) = name # screenshots es"
| "screenshots (e # es) = screenshots es"

fun choices :: "event list \<Rightarrow> (nat \<times> nat \<times> bool \<times> nat list) list" where
  "choices [] = []"
| "choices (Random_choice n k replace idx # es) = (n, k, replace, idx) # choices es"
| "choices (e # es) = choices es"

subsection \<open>The random generator\<close>

text \<open>
  \<^verbatim>\<open>np.random\<close> is numpy's global Mersenne Twister. Its state is modelled by the
  stream of raw numbers it will still produce; what \<^verbatim>\<open>np.random.seed(s)\<close> sets the
  state to is a parameter of the model (\<open>w_mt19937\<close> below). The functions on it follow
  numpy's \<^verbatim>\<open>RandomState.choice\<close> for a one-dimensional population without weights:
  with replacement it draws \<open>size\<close> indices below the population size, without it takes
  the first \<open>size\<close> entries of a shuffled \<^verbatim>\<open>arange\<close>, and it raises
  \<^verbatim>\<open>ValueError\<close> on an empty population (unless no sample is asked for) and on a
  sample without replacement larger than the population.
\<close>

type_synonym rng = "nat \<Rightarrow> nat"

definition randint :: "nat \<Rightarrow> rng \<Rightarrow> nat \<times> rng" where
  "randint n g = (g 0 mod n, \<lambda>k. g (Suc k))"

fun randints :: "nat \<Rightarrow> nat \<Rightarrow> rng \<Rightarrow> nat list \<times> rng" where
  "randints n 0 g = ([], g)"
| "randints n (Suc m) g =
     (let (x, g1) = randint n g; (xs, g2) = randints n m g1 in (x # xs, g2))"

text \<open>The shuffle swaps position \<open>i\<close> with a random position \<open>j \<le> i\<close>, for \<open>i\<close> going down to 1.\<close>

fun shuffle :: "nat \<Rightarrow> nat list \<Rightarrow> rng \<Rightarrow> nat list \<times> rng" where
  "shuffle 0 xs g = (xs, g)"
| "shuffle (Suc i) xs g =
     (let (j, g1) = randint (Suc (Suc i)) g
      in shuffle i (xs[Suc i := xs ! j, j := xs ! Suc i]) g1)"

definition permutation :: "nat \<Rightarrow> rng \<Rightarrow> nat list \<times> rng" where
  "permutation n g = shuffle (n - 1) [0..<n] g"

definition random_choice :: "nat \<Rightarrow> nat \<Rightarrow> bool \<Rightarrow> rng \<Rightarrow> py_error + (nat list \<times> rng)" where
  "random_choice pop_size sample_size replace g =
     (if pop_size = 0 \<and> sample_size \<noteq> 0 then Inl ValueError
      else if replace then Inr (randints pop_size sample_size g)
      else if pop_size < sample_size then Inl ValueError
      else Inr (let (p, g1) = permutation pop_size g in (take sample_size p, g1)))"

text \<open>
  \<^verbatim>\<open>np.random.choice(np.array(range(n)).flatten(), size, replace=...)\<close>: the
  population is \<open>0, ..., n - 1\<close>, so the sample is the list of drawn indices. The draw
  changes the global generator; it is recorded among the effects.
\<close>

definition np_random_choice :: "nat \<Rightarrow> nat \<Rightarrow> bool \<Rightarrow> rng \<Rightarrow> (nat list \<times> rng) run" where
  "np_random_choice n sample_size replace g =
     run_bind (lift_err (random_choice n sample_size replace g)) (\<lambda>(idx, g1).
     run_bind (emit (Random_choice n sample_size replace idx)) (\<lambda>_.
       ret (idx, g1)))"

subsection \<open>The outside world\<close>

text \<open>
  The command line after \<^verbatim>\<open>argparse\<close> (an option that is not given is
  \<^verbatim>\<open>None\<close>), and what the file system, pandas, numpy and TensorFlow answer.
  \<open>w_read_names\<close> is the first column of a CSV file of geometry paths
  (\<^verbatim>\<open>geom[i][0]\<close>), \<open>w_read_points\<close> the first three columns of a point file,
  \<open>w_read_numbers\<close> a flattened numeric file, \<open>w_log_dictionary\<close> the dictionary of the
  module \<^verbatim>\<open>log_dictionary\<close> copied from the network directory, \<open>w_restore\<close> the
  restored graph as its two inference functions, \<open>w_entropy\<close> the state of the global
  generator when the script starts.
\<close>

record args =
  arg_N :: "int option"
  arg_LR :: "int option"
  arg_GPU :: "int option"
  arg_VAE :: "string option"

record network =
  net_encode :: "cloud list \<Rightarrow> real list list"
  net_decode :: "real list \<Rightarrow> cloud"

record world =
  w_exists :: "string \<Rightarrow> bool"
  w_log_dictionary :: "string \<Rightarrow> py_error + (string \<Rightarrow> int option)"
  w_read_names :: "string \<Rightarrow> py_error + string list"
  w_read_points :: "string \<Rightarrow> py_error + cloud"
  w_read_numbers :: "string \<Rightarrow> py_error + real list"
  w_restore :: "string \<Rightarrow> string \<Rightarrow> py_error + network"
  w_mt19937 :: "nat \<Rightarrow> rng"
  w_entropy :: rng

text \<open>
  \<^verbatim>\<open>pd.read_csv\<close> raises \<^verbatim>\<open>EmptyDataError\<close> on a file with nothing to parse,
  so a table that was read has a row.
\<close>

definition read_csv :: "(string \<Rightarrow> py_error + 'a list) \<Rightarrow> string \<Rightarrow> 'a list run" where
  "read_csv reader path =
     run_bind (emit (Read_csv path)) (\<lambda>_.
     run_bind (lift_err (reader path)) (\<lambda>rows.
       if rows = [] then raise EmptyDataError else ret rows))"

subsection \<open>Initialisation (lines 99-120)\<close>

text \<open>
  \<^verbatim>\<open>np.random.seed(seed=0)\<close> replaces the state of the global generator, whatever
  it was. (\<^verbatim>\<open>random.seed(0)\<close> seeds Python's own generator, from which the script
  never draws.)
\<close>

definition np_random_seed :: "world \<Rightarrow> nat \<Rightarrow> rng \<Rightarrow> rng" where
  "np_random_seed w s g = w_mt19937 w s"

definition initialise :: "world \<Rightarrow> args \<Rightarrow> (bool \<times> rng) run" where
  "initialise w a =
     run_bind (emit (Putenv ''CUDA_VISIBLE_DEVICES'' (format_arg (arg_GPU a)))) (\<lambda>_.
     run_bind (lift_err (flagVAE (arg_VAE a))) (\<lambda>flag.
     run_bind (emit (System ''clear'')) (\<lambda>_.
       ret (flag, np_random_seed w 0 (w_entropy w)))))"

subsection \<open>Settings and preprocessing (lines 211-249)\<close>

definition name_exp :: "args \<Rightarrow> bool \<Rightarrow> string" where
  "name_exp a flag =
     (let name = ''pcae_N'' @ format_arg (arg_N a) @ ''_LR'' @ format_arg (arg_LR a)
      in if flag then ''v_'' @ name else name)"

definition n_shapes_trainingset :: nat where
  "n_shapes_trainingset = 5"

definition n_shapes_testset :: nat where
  "n_shapes_testset = 5"

definition n_steps_interp :: nat where
  "n_steps_interp = 5"

definition top_dir :: "args \<Rightarrow> bool \<Rightarrow> string" where
  "top_dir a flag = ''Network_'' @ name_exp a flag"

text \<open>
  The existence check of lines 226-228, then the dictionary and the two lists of
  geometries. The result is the dictionary and the lists.
\<close>

definition preprocessing :: "world \<Rightarrow> string \<Rightarrow>
    ((string \<Rightarrow> int option) \<times> string list \<times> string list) run" where
  "preprocessing w dir =
     run_bind (if \<not> w_exists w dir
               then run_bind (emit (Print (''Directory '' @ dir @ '' does not exist!''))) (\<lambda>_.
                      raise SystemExit)
               else ret ()) (\<lambda>_.
     run_bind (emit (System (''cp '' @ dir @ ''/log_dictionary.py .''))) (\<lambda>_.
     run_bind (emit (Import_module ''log_dictionary'')) (\<lambda>_.
     run_bind (lift_err (w_log_dictionary w dir)) (\<lambda>log_dictionary.
     run_bind (emit (System ''rm log_dictionary.py'')) (\<lambda>_.
     run_bind (read_csv (w_read_names w) (dir @ ''/geometries_training.csv'')) (\<lambda>geom_training.
     run_bind (read_csv (w_read_names w) (dir @ ''/geometries_testing.csv'')) (\<lambda>geom_testing.
       ret (log_dictionary, geom_training, geom_testing))))))))"

definition metaf :: "bool \<Rightarrow> string" where
  "metaf flag = (if flag then ''vpcae'' else ''pcae'')"

definition TFmetaFile :: "string \<Rightarrow> bool \<Rightarrow> string" where
  "TFmetaFile dir flag = dir @ ''/'' @ metaf flag @ ''.meta''"

definition TFDirectory :: "string \<Rightarrow> string" where
  "TFDirectory dir = dir @ ''/''"

subsection \<open>Loading the shapes (lines 254-304)\<close>

text \<open>The variables the two loading loops assign; a name that is not bound yet is \<open>None\<close>.\<close>

record load_state =
  ls_rng :: rng
  ls_vis_set :: "cloud list"
  ls_color_shape :: "real list list"
  ls_log_reconst :: "string list"
  ls_cntr :: nat
  ls_pc_load :: "cloud option"
  ls_pc_sample :: "nat list option"

text \<open>Assignments \<^verbatim>\<open>a[i, k] = v\<close> and \<^verbatim>\<open>a[i, ...] = v\<close>, and the gather \<^verbatim>\<open>a[idx, :]\<close>.\<close>

definition set_entry :: "real list list \<Rightarrow> nat \<Rightarrow> nat \<Rightarrow> real \<Rightarrow> py_error + real list list" where
  "set_entry a i k v =
     (if i < length a \<and> k < length (a ! i) then Inr (a[i := (a ! i)[k := v]])
      else Inl IndexError)"

definition set_row :: "'a list \<Rightarrow> nat \<Rightarrow> 'a \<Rightarrow> py_error + 'a list" where
  "set_row a i v = (if i < length a then Inr (a[i := v]) else Inl IndexError)"

definition take_rows :: "'a list \<Rightarrow> nat list \<Rightarrow> py_error + 'a list" where
  "take_rows a idx =
     (if list_all (\<lambda>k. k < length a) idx then Inr (map (\<lambda>k. a ! k) idx)
      else Inl IndexError)"

text \<open>
  Lines 280-285 and 294-299, the same in both loops: with replacement (the default of
  \<^verbatim>\<open>np.random.choice\<close>) when the cloud has fewer points than \<^verbatim>\<open>pc_size\<close>,
  without otherwise.
\<close>

definition pc_sample :: "cloud \<Rightarrow> nat \<Rightarrow> rng \<Rightarrow> (nat list \<times> rng) run" where
  "pc_sample pc_load pc_size g =
     (if length pc_load < pc_size
      then np_random_choice (length pc_load) pc_size True g
      else np_random_choice (length pc_load) pc_size False g)"

text \<open>The body of the loop over the selected training shapes (lines 277-288).\<close>

definition load_training :: "world \<Rightarrow> string list \<Rightarrow> nat \<Rightarrow> nat \<Rightarrow> load_state \<Rightarrow> load_state run" where
  "load_training w geom_training pc_size i s =
     run_bind (lift_err (row geom_training i)) (\<lambda>path.
     run_bind (read_csv (w_read_points w) path) (\<lambda>pc_load.
     let s = s\<lparr>ls_pc_load := Some pc_load, ls_log_reconst := ls_log_reconst s @ [path]\<rparr> in
     run_bind (pc_sample pc_load pc_size (ls_rng s)) (\<lambda>(idx, g).
     let s = s\<lparr>ls_pc_sample := Some idx, ls_rng := g\<rparr> in
     run_bind (lift_err (set_entry (ls_color_shape s) (ls_cntr s) 2 1)) (\<lambda>color_shape.
     run_bind (lift_err (take_rows pc_load idx)) (\<lambda>rows.
     run_bind (lift_err (set_row (ls_vis_set s) (ls_cntr s) rows)) (\<lambda>vis_set.
       ret (s\<lparr>ls_color_shape := color_shape, ls_vis_set := vis_set,
              ls_cntr := ls_cntr s + 1\<rparr>)))))))"

text \<open>
  The body of the loop over the selected test shapes (lines 291-302): the path is logged
  before the file is read, and the colour is red.
\<close>

definition load_testing :: "world \<Rightarrow> string list \<Rightarrow> nat \<Rightarrow> nat \<Rightarrow> load_state \<Rightarrow> load_state run" where
  "load_testing w geom_testing pc_size i s =
     run_bind (lift_err (row geom_testing i)) (\<lambda>path.
     let s = s\<lparr>ls_log_reconst := ls_log_reconst s @ [path]\<rparr> in
     run_bind (read_csv (w_read_points w) path) (\<lambda>pc_load.
     let s = s\<lparr>ls_pc_load := Some pc_load\<rparr> in
     run_bind (pc_sample pc_load pc_size (ls_rng s)) (\<lambda>(idx, g).
     let s = s\<lparr>ls_pc_sample := Some idx, ls_rng := g\<rparr> in
     run_bind (lift_err (set_entry (ls_color_shape s) (ls_cntr s) 0 1)) (\<lambda>color_shape.
     run_bind (lift_err (take_rows pc_load idx)) (\<lambda>rows.
     run_bind (lift_err (set_row (ls_vis_set s) (ls_cntr s) rows)) (\<lambda>vis_set.
       ret (s\<lparr>ls_color_shape := color_shape, ls_vis_set := vis_set,
              ls_cntr := ls_cntr s + 1\<rparr>)))))))"

text \<open>
  Lines 254-304 for \<open>n_tr\<close> training and \<open>n_te\<close> test shapes. \<^verbatim>\<open>np.zeros\<close> raises
  \<^verbatim>\<open>ValueError\<close> on a negative dimension. The two statements after the loops
  overwrite the last slot of the batch with the cloud loaded last and colour the extra,
  wrap-around row blue; they raise \<^verbatim>\<open>NameError\<close> when no cloud was loaded.
\<close>

definition load_shapes :: "world \<Rightarrow> nat \<Rightarrow> nat \<Rightarrow> (string \<Rightarrow> int option) \<Rightarrow> string list \<Rightarrow> string list \<Rightarrow>
    rng \<Rightarrow> load_state run" where
  "load_shapes w n_tr n_te log_dictionary geom_training geom_testing g =
     run_bind (lift_err (case log_dictionary ''pc_size'' of
                           None \<Rightarrow> Inl KeyError | Some v \<Rightarrow> Inr v)) (\<lambda>pc_size.
     run_bind (np_random_choice (length geom_training) n_tr False g) (\<lambda>(i_sel_training, g).
     run_bind (np_random_choice (length geom_testing) n_te False g) (\<lambda>(i_sel_testing, g).
     run_bind (if pc_size < 0 then raise ValueError else ret (nat pc_size)) (\<lambda>pc_size.
     let s = \<lparr>ls_rng = g,
              ls_vis_set = replicate (n_tr + n_te) (replicate pc_size (0, 0, 0)),
              ls_color_shape = replicate (n_tr + n_te + 1) [0, 0, 0],
              ls_log_reconst = [],
              ls_cntr = 0,
              ls_pc_load = None,
              ls_pc_sample = None\<rparr> in
     run_bind (for_each i_sel_training (load_training w geom_training pc_size) s) (\<lambda>s.
     run_bind (for_each i_sel_testing (load_testing w geom_testing pc_size) s) (\<lambda>s.
     run_bind (lift_err (case ls_pc_load s of None \<Rightarrow> Inl NameError | Some c \<Rightarrow> Inr c)) (\<lambda>pc_load.
     run_bind (lift_err (case ls_pc_sample s of None \<Rightarrow> Inl NameError | Some c \<Rightarrow> Inr c)) (\<lambda>idx.
     run_bind (lift_err (take_rows pc_load idx)) (\<lambda>rows.
     run_bind (lift_err (set_row (ls_vis_set s) (length (ls_vis_set s) - 1) rows)) (\<lambda>vis_set.
     run_bind (lift_err (set_entry (ls_color_shape s) (length (ls_color_shape s) - 1) 2 1))
       (\<lambda>color_shape.
       ret (s\<lparr>ls_vis_set := vis_set, ls_color_shape := color_shape\<rparr>))))))))))))"

subsection \<open>Normalisation (lines 306-319)\<close>

definition map_point :: "(real \<Rightarrow> real) \<Rightarrow> point \<Rightarrow> point" where
  "map_point f p = (case p of (x, y, z) \<Rightarrow> (f x, f y, f z))"

text \<open>
  Modelled from the spec: \<^verbatim>\<open>data_set_norm\<close> of the module
  \<^verbatim>\<open>preproc_scripts\<close>, which is not among the sources. The specification says that
  the clouds are normalised into a fixed numeric range using the dataset-wide minimum
  and maximum, and that the recorded minimum and maximum are mapped to the bounds of the
  target interval: the linear map that sends the input limits to the output limits,
  applied to every coordinate. The call site unpacks two results; the second is taken to
  be the input limits.
\<close>

definition data_set_norm :: "cloud list \<Rightarrow> real \<times> real \<Rightarrow> real \<times> real \<Rightarrow> cloud list \<times> (real \<times> real)" where
  "data_set_norm pc_batch out_lim inp_lim =
     (map (map (map_point (\<lambda>x.
        (x - fst inp_lim) / (snd inp_lim - fst inp_lim) * (snd out_lim - fst out_lim)
          + fst out_lim))) pc_batch,
      inp_lim)"

text \<open>
  Lines 308-315: the file holds the maximum first and the minimum second; the target
  interval is \<open>[0.1, 0.9]\<close>.
\<close>

definition normalise :: "world \<Rightarrow> string \<Rightarrow> cloud list \<Rightarrow> cloud list run" where
  "normalise w dir vis_set =
     run_bind (read_csv (w_read_numbers w) (dir @ ''/normvalues.csv'')) (\<lambda>normDS.
     run_bind (lift_err (row normDS 0)) (\<lambda>maX.
     run_bind (lift_err (row normDS 1)) (\<lambda>miX.
     let Delta = maX - miX in
       ret (fst (data_set_norm vis_set (1/10, 9/10) (miX, maX))))))"

subsection \<open>Visualisation (lines 324-403)\<close>

definition dir_pc_plot :: "string \<Rightarrow> string" where
  "dir_pc_plot dir = dir @ ''/point_cloud_interpolation''"

text \<open>
  The session: the graph is restored, the batch is encoded, the first latent row is
  appended as the wrap-around shape, the loop runs with the \<^verbatim>\<open>plot3\<close> of this file,
  and ImageMagick assembles the frames. (The backslash-newline inside the string literal
  of line 402 keeps the indentation of line 403 in the command.)
\<close>

definition visualise :: "world \<Rightarrow> nat \<Rightarrow> string \<Rightarrow> bool \<Rightarrow> cloud list \<Rightarrow> real list list \<Rightarrow> unit run" where
  "visualise w n_steps dir flag vis_set color_shape =
     run_bind (emit (System (''mkdir '' @ dir_pc_plot dir))) (\<lambda>_.
     run_bind (emit (Restore_graph (TFmetaFile dir flag) (TFDirectory dir))) (\<lambda>_.
     run_bind (lift_err (w_restore w (TFmetaFile dir flag) (TFDirectory dir))) (\<lambda>net.
     let latent_rep_total = net_encode net vis_set in
     run_bind (lift_err (row latent_rep_total 0)) (\<lambda>first.
     let latent_rep_total = latent_rep_total @ [first] in
     run_bind (interp_loop plot3 (net_decode net) latent_rep_total color_shape vis_set n_steps
                 (dir_pc_plot dir)) (\<lambda>_.
       emit (System (''convert -delay 40 -loop 0 '' @ dir_pc_plot dir @ ''/*.png         ''
                       @ dir_pc_plot dir @ ''/interpolation.gif'')))))))"

subsection \<open>The script\<close>

definition script :: "nat \<Rightarrow> nat \<Rightarrow> nat \<Rightarrow> world \<Rightarrow> args \<Rightarrow> unit run" where
  "script n_tr n_te n_steps w a =
     run_bind (initialise w a) (\<lambda>(flag, g).
     let dir = top_dir a flag in
     run_bind (preprocessing w dir) (\<lambda>(log_dictionary, geom_training, geom_testing).
     run_bind (load_shapes w n_tr n_te log_dictionary geom_training geom_testing g) (\<lambda>s.
     run_bind (normalise w dir (ls_vis_set s)) (\<lambda>vis_set.
     run_bind (emit (To_csv (dir @ ''/geometries_reconstruction.csv'') (ls_log_reconst s))) (\<lambda>_.
       visualise w n_steps dir flag vis_set (ls_color_shape s))))))"

definition main :: "world \<Rightarrow> args \<Rightarrow> unit run" where
  "main w a = script n_shapes_trainingset n_shapes_testset n_steps_interp w a"

section \<open>Notions used in the proofs\<close>

text \<open>The ramp of azimuths over \<open>N\<close> frames, as a function of the frame counter.\<close>

definition ramp :: "nat \<Rightarrow> nat \<Rightarrow> real" where
  "ramp N c = (90 - real ar_range / 2) + real c / real N * real ar_range"

text \<open>
  A piece of the loop, as a function of the counter it starts from, advances the counter
  by \<open>m\<close>: the azimuths it passes are \<open>f\<close> at the next \<open>k \<le> m\<close> counter values, and
  when it returns \<open>k = m\<close> and the counter has moved by \<open>m\<close>.
\<close>

definition steps_by :: "(nat \<Rightarrow> real) \<Rightarrow> nat \<Rightarrow> (nat \<Rightarrow> nat run) \<Rightarrow> bool" where
  "steps_by f m body \<longleftrightarrow>
     (\<forall>c. \<exists>k\<le>m. az_calls (fst (body c)) = map f [c..<c + k]
        \<and> (\<forall>c'. snd (body c) = Inr c' \<longrightarrow> k = m \<and> c' = c + m))"

text \<open>
  A plotting function with the signature the call of line 399 expects: it takes the
  keywords and writes the file.
\<close>

definition plot_accepting :: plotter where
  "plot_accepting PC Filename keywords = ([Filename], Inr ())"

text \<open>
  A small world for concrete runs: no network directory \<^verbatim>\<open>Network_v_pcae_N2048_LR128\<close>,
  the directory \<^verbatim>\<open>Network_pcae_N2_LR1\<close> with two geometries in each list, point
  files of two and of three points, normalisation values 2 and -2, a dictionary with
  \<^verbatim>\<open>pc_size\<close> 2, and a network with one latent variable per cloud.
\<close>

definition example_network :: network where
  "example_network =
     \<lparr>net_encode = map (\<lambda>pc. [real (length pc)]), net_decode = (\<lambda>z. [])\<rparr>"

definition example_world :: world where
  "example_world =
     \<lparr>w_exists = (\<lambda>p. p = ''Network_pcae_N2_LR1''),
      w_log_dictionary = (\<lambda>p. Inr (\<lambda>k. if k = ''pc_size'' then Some 2 else None)),
      w_read_names = (\<lambda>p. if p = ''Network_pcae_N2_LR1/geometries_training.csv''
                           then Inr [''a.xyz'', ''b.xyz'']
                           else if p = ''Network_pcae_N2_LR1/geometries_testing.csv''
                           then Inr [''b.xyz'', ''a.xyz'']
                           else Inl IOError),
      w_read_points = (\<lambda>p. if p = ''a.xyz'' then Inr [(-2, 0, 2), (1, 1, 1)]
                            else if p = ''b.xyz'' then Inr [(0, 0, 0), (1, 0, 0), (2, 0, 0)]
                            else Inl IOError),
      w_read_numbers = (\<lambda>p. if p = ''Network_pcae_N2_LR1/normvalues.csv'' then Inr [2, -2]
                             else Inl IOError),
      w_restore = (\<lambda>m d. Inr example_network),
      w_mt19937 = (\<lambda>s k. s),
      w_entropy = (\<lambda>k. 7 * k)\<rparr>"

definition example_state :: load_state where
  "example_state =
     \<lparr>ls_rng = (\<lambda>k. k),
      ls_vis_set = [[], []],
      ls_color_shape = [[0, 0, 0], [0, 0, 0], [0, 0, 0]],
      ls_log_reconst = [],
      ls_cntr = 0,
      ls_pc_load = None,
      ls_pc_sample = None\<rparr>"

definition example_args :: args where
  "example_args = \<lparr>arg_N = Some 2, arg_LR = Some 1, arg_GPU = None, arg_VAE = None\<rparr>"

section \<open>Properties\<close>

subsection \<open>Helper facts\<close>

lemma lower_char_cases:
  "lower_char c = d \<longleftrightarrow>
     (if 65 \<le> (of_char c :: nat) \<and> (of_char c :: nat) \<le> 90
      then of_char d = (of_char c :: nat) + 32 else d = c)"
proof (cases "65 \<le> (of_char c :: nat) \<and> (of_char c :: nat) \<le> 90")
  case True
  then have lt: "(of_char c :: nat) + 32 < 256" by simp
  have "char_of ((of_char c :: nat) + 32) = d \<longleftrightarrow> of_char d = (of_char c :: nat) + 32"
  proof
    assume "char_of ((of_char c :: nat) + 32) = d"
    then have "(of_char d :: nat) = of_char (char_of ((of_char c :: nat) + 32))" by simp
    also have "\<dots> = ((of_char c :: nat) + 32) mod 256" by (simp only: of_char_of)
    finally show "of_char d = (of_char c :: nat) + 32" using lt by simp
  next
    assume "of_char d = (of_char c :: nat) + 32"
    then have "char_of ((of_char c :: nat) + 32) = char_of (of_char d :: nat)" by simp
    then show "char_of ((of_char c :: nat) + 32) = d" by simp
  qed
  with True show ?thesis by (simp add: lower_char_def Let_def)
next
  case False
  then show ?thesis by (auto simp add: lower_char_def Let_def)
qed

lemma of_char_inj_nat: "(of_char x :: nat) = of_char y \<longleftrightarrow> x = y"
  by (metis char_of_char)

lemma lower_char_t: "lower_char x = CHR ''t'' \<longleftrightarrow> x = CHR ''t'' \<or> x = CHR ''T''"
  unfolding lower_char_cases using of_char_inj_nat[of x "CHR ''T''"] by (auto split: if_splits)

lemma lower_char_r: "lower_char x = CHR ''r'' \<longleftrightarrow> x = CHR ''r'' \<or> x = CHR ''R''"
  unfolding lower_char_cases using of_char_inj_nat[of x "CHR ''R''"] by (auto split: if_splits)

lemma lower_char_u: "lower_char x = CHR ''u'' \<longleftrightarrow> x = CHR ''u'' \<or> x = CHR ''U''"
  unfolding lower_char_cases using of_char_inj_nat[of x "CHR ''U''"] by (auto split: if_splits)

lemma lower_char_e: "lower_char x = CHR ''e'' \<longleftrightarrow> x = CHR ''e'' \<or> x = CHR ''E''"
  unfolding lower_char_cases using of_char_inj_nat[of x "CHR ''E''"] by (auto split: if_splits)

lemma map_eq_four:
  "map f v = [p, q, r, s] \<longleftrightarrow>
     (\<exists>a b c d. v = [a, b, c, d] \<and> f a = p \<and> f b = q \<and> f c = r \<and> f d = s)"
  by (auto simp: map_eq_Cons_conv)

lemma lower_eq_true:
  "lower v = ''true'' \<longleftrightarrow>
     (\<exists>a b c d. v = [a, b, c, d] \<and> a \<in> {CHR ''t'', CHR ''T''} \<and> b \<in> {CHR ''r'', CHR ''R''}
        \<and> c \<in> {CHR ''u'', CHR ''U''} \<and> d \<in> {CHR ''e'', CHR ''E''})"
  unfolding lower_def map_eq_four lower_char_t lower_char_r lower_char_u lower_char_e
  by (simp only: insert_iff empty_iff simp_thms)

subsection \<open>The variational flag\<close>

text \<open>
  Claim C9. \<^verbatim>\<open>flagVAE\<close> is \<^verbatim>\<open>True\<close> exactly when \<^verbatim>\<open>--VAE\<close> is supplied and
  its value equals \<^verbatim>\<open>"true"\<close> up to letter case, that is, when it is one of the
  sixteen spellings \<open>[tT][rR][uU][eE]\<close>; for every other value and for an absent
  argument it is \<^verbatim>\<open>False\<close>. The result is always a value \<open>Inr _\<close>: no exception
  is raised, the \<^verbatim>\<open>.lower()\<close> call on \<^verbatim>\<open>None\<close> being guarded.
\<close>

theorem flagVAE_true_iff:
  "flagVAE vae =
     Inr (\<exists>a b c d. vae = Some [a, b, c, d] \<and> a \<in> {CHR ''t'', CHR ''T''}
        \<and> b \<in> {CHR ''r'', CHR ''R''} \<and> c \<in> {CHR ''u'', CHR ''U''} \<and> d \<in> {CHR ''e'', CHR ''E''})"
proof (cases vae)
  case None
  then show ?thesis by (simp add: flagVAE_def)
next
  case (Some v)
  then show ?thesis
    by (simp add: flagVAE_def lower_method_def err_bind_def lower_eq_true)
qed

lemma flagVAE_examples:
  "flagVAE None = Inr False"
  "flagVAE (Some ''TRUE'') = Inr True"
  "flagVAE (Some ''True'') = Inr True"
  "flagVAE (Some ''yes'') = Inr False"
  "flagVAE (Some []) = Inr False"
  "flagVAE (Some ''true '') = Inr False"
  by code_simp+

lemma truediv_steps:
  assumes "2 \<le> S"
  shows "truediv (real j) (real_of_int (int S - 1)) = Inr (real j / real (S - 1))"
proof -
  have "real_of_int (int S - 1) = real (S - 1)" using assms by (simp add: of_nat_diff)
  moreover have "real (S - 1) \<noteq> 0" using assms by simp
  ultimately show ?thesis by (simp add: truediv_def)
qed

lemma map2_fst_only: "length xs = length ys \<Longrightarrow> map2 (\<lambda>a b. a) xs ys = xs"
  by (induction xs ys rule: list_induct2) simp_all

lemma map2_snd_only: "length xs = length ys \<Longrightarrow> map2 (\<lambda>a b. b) xs ys = ys"
  by (induction xs ys rule: list_induct2) simp_all

lemma map2_fst_scaled:
  "length xs = length ys \<Longrightarrow> map2 (\<lambda>a b. c * a) xs ys = map (\<lambda>a. c * (a::real)) xs"
  by (induction xs ys rule: list_induct2) simp_all

lemma map2_snd_scaled:
  "length xs = length ys \<Longrightarrow> map2 (\<lambda>a b. c * b) xs ys = map (\<lambda>b. c * (b::real)) ys"
  by (induction xs ys rule: list_induct2) simp_all

lemma blend_closed_form:
  "arr_add (arr_scale A (1 - t)) (arr_scale B t) = map2 (\<lambda>a b. a * (1 - t) + b * t) A B"
  by (simp add: arr_add_def arr_scale_def zip_map1 zip_map2 map_zip_map map_zip_map2 split_def)

lemma scale_arr_map2: "scale_arr c (map2 f A B) = map2 (\<lambda>a b. c * f a b) A B"
  by (simp add: scale_arr_def split_def)

lemma row_in_range: "i < length a \<Longrightarrow> row a i = Inr (a ! i)"
  by (simp add: row_def)

lemma shp_interp_closed:
  assumes "i + 1 < length L" and "2 \<le> S"
  shows "shp_interp L i j S =
           Inr (map2 (\<lambda>a b. a * (1 - real j / real (S - 1)) + b * (real j / real (S - 1)))
                  (L ! i) (L ! (i + 1)))"
proof -
  have r0: "row L i = Inr (L ! i)" using assms(1) by (simp add: row_def)
  have r1: "row L (i + 1) = Inr (L ! (i + 1))" using assms(1) by (simp add: row_def)
  show ?thesis
    unfolding shp_interp_def r0 r1 truediv_steps[OF assms(2)] err_bind_def
    by (simp only: sum.case blend_closed_form)
qed

lemma col_interp_closed:
  assumes "i + 1 < length C" and "2 \<le> S"
  shows "col_interp C i j S =
           Inr (map2 (\<lambda>a b. 1/2 * (a * (1 - real j / real (S - 1)) + b * (real j / real (S - 1))))
                  (C ! i) (C ! (i + 1)))"
proof -
  have r0: "row C i = Inr (C ! i)" using assms(1) by (simp add: row_def)
  have r1: "row C (i + 1) = Inr (C ! (i + 1))" using assms(1) by (simp add: row_def)
  show ?thesis
    unfolding col_interp_def r0 r1 truediv_steps[OF assms(2)] err_bind_def
    by (simp only: sum.case blend_closed_form scale_arr_map2)
qed

subsection \<open>Latent interpolation\<close>

text \<open>
  Claim C1. For two consecutive rows \<open>A = latent_rep_total[i]\<close> and
  \<open>B = latent_rep_total[i+1]\<close> of equal length and a step count \<open>S \<ge> 2\<close>, the
  interpolated vector at step \<open>j\<close> is, entry by entry,
  \<open>a * (1 - j/(S-1)) + b * (j/(S-1))\<close> with the true quotient of \<open>j\<close> and \<open>S - 1\<close>
  (no exception is raised); at \<open>j = 0\<close> it is \<open>A\<close> and at \<open>j = S - 1\<close> it is \<open>B\<close>.
\<close>

theorem shp_interp_formula:
  assumes "i + 1 < length L" and "length (L ! i) = length (L ! (i + 1))" and "2 \<le> S"
  shows "shp_interp L i j S =
           Inr (map2 (\<lambda>a b. a * (1 - real j / real (S - 1)) + b * (real j / real (S - 1)))
                  (L ! i) (L ! (i + 1)))
         \<and> shp_interp L i 0 S = Inr (L ! i)
         \<and> shp_interp L i (S - 1) S = Inr (L ! (i + 1))"
proof -
  have one: "real (S - 1) / real (S - 1) = 1" using assms(3) by simp
  have "shp_interp L i 0 S = Inr (L ! i)"
    unfolding shp_interp_closed[OF assms(1,3)] using map2_fst_only[OF assms(2)] by simp
  moreover have "shp_interp L i (S - 1) S = Inr (L ! (i + 1))"
    unfolding shp_interp_closed[OF assms(1,3)] one using map2_snd_only[OF assms(2)] by simp
  moreover note shp_interp_closed[OF assms(1,3), of j]
  ultimately show ?thesis by blast
qed

theorem shp_interp_formula_witness:
  "shp_interp [[1, 2], [3, 6]] 0 1 5 = Inr [3/2, 3]
   \<and> shp_interp [[1, 2], [3, 6]] 0 0 5 = Inr [1, 2]
   \<and> shp_interp [[1, 2], [3, 6]] 0 4 5 = Inr [3, 6]"
  using shp_interp_formula[of 0 "[[1, 2], [3, 6]]" 5 1] by simp

text \<open>With a single step the quotient \<open>0/0\<close> raises, so \<open>S \<ge> 2\<close> is needed.\<close>

lemma shp_interp_single_step: "shp_interp [A, B] 0 0 1 = Inl ZeroDivisionError"
  by (simp add: shp_interp_def row_def truediv_def err_bind_def)

subsection \<open>Colour interpolation\<close>

text \<open>
  Claim C4. For two consecutive colour labels \<open>C1 = color_shape[i]\<close> and
  \<open>C2 = color_shape[i+1]\<close> of equal length (three components in the script) and a step
  count \<open>S \<ge> 2\<close>, the blended colour at step \<open>j\<close> is, entry by entry,
  \<open>0.5 * (c1 * (1 - j/(S-1)) + c2 * (j/(S-1)))\<close>; at step \<open>0\<close> it is half of \<open>C1\<close>
  and at step \<open>S - 1\<close> half of \<open>C2\<close>.
\<close>

theorem col_interp_formula:
  assumes "i + 1 < length C" and "length (C ! i) = length (C ! (i + 1))" and "2 \<le> S"
  shows "col_interp C i j S =
           Inr (map2 (\<lambda>a b. 1/2 * (a * (1 - real j / real (S - 1)) + b * (real j / real (S - 1))))
                  (C ! i) (C ! (i + 1)))
         \<and> col_interp C i 0 S = Inr (map (\<lambda>a. 1/2 * a) (C ! i))
         \<and> col_interp C i (S - 1) S = Inr (map (\<lambda>b. 1/2 * b) (C ! (i + 1)))"
proof -
  have one: "real (S - 1) / real (S - 1) = 1" using assms(3) by simp
  note fst_half = map2_fst_scaled[OF assms(2), of "1/2"]
  note snd_half = map2_snd_scaled[OF assms(2), of "1/2"]
  have "col_interp C i 0 S = Inr (map (\<lambda>a. 1/2 * a) (C ! i))"
    unfolding col_interp_closed[OF assms(1,3)] using fst_half by simp
  moreover have "col_interp C i (S - 1) S = Inr (map (\<lambda>b. 1/2 * b) (C ! (i + 1)))"
    unfolding col_interp_closed[OF assms(1,3)] one using snd_half by simp
  moreover note col_interp_closed[OF assms(1,3), of j]
  ultimately show ?thesis by blast
qed

theorem col_interp_formula_witness:
  "col_interp [[0, 0, 1], [1, 0, 0]] 0 1 5 = Inr [1/8, 0, 3/8]
   \<and> col_interp [[0, 0, 1], [1, 0, 0]] 0 0 5 = Inr [0, 0, 1/2]
   \<and> col_interp [[0, 0, 1], [1, 0, 0]] 0 4 5 = Inr [1/2, 0, 0]"
  using col_interp_formula[of 0 "[[0, 0, 1], [1, 0, 0]]" 5 1] by simp

subsection \<open>Runs of the interpolation loop\<close>

lemma fst_run_bind:
  "fst (run_bind m f) = (case snd m of Inl e \<Rightarrow> fst m | Inr a \<Rightarrow> fst m @ fst (f a))"
  by (simp add: run_bind_def split: sum.splits)

lemma snd_run_bind:
  "snd (run_bind m f) = (case snd m of Inl e \<Rightarrow> Inl e | Inr a \<Rightarrow> snd (f a))"
  by (simp add: run_bind_def split: sum.splits)

lemma run_bind_lift_err:
  "run_bind (lift_err m) f = (case m of Inl e \<Rightarrow> ([], Inl e) | Inr a \<Rightarrow> f a)"
  by (simp add: run_bind_def lift_err_def split: sum.splits)

lemma run_bind_ret: "run_bind (ret a) f = f a"
  by (simp add: run_bind_def ret_def)

lemma run_bind_emit: "run_bind (emit ev) f = (ev # fst (f ()), snd (f ()))"
  by (simp add: run_bind_def emit_def)

lemma az_calls_append: "az_calls (xs @ ys) = az_calls xs @ az_calls ys"
  by (induction xs rule: az_calls.induct) simp_all

lemma screenshots_append: "screenshots (xs @ ys) = screenshots xs @ screenshots ys"
  by (induction xs rule: screenshots.induct) simp_all

lemma az_closed:
  "az w c n s =
     (if n * s = 0 then Inl ZeroDivisionError
      else Inr ((90 - real w / 2) + real c / real (n * s) * real w))"
  by (simp add: az_def truediv_def err_bind_def)

lemma steps_by_for_each:
  assumes "\<And>x. x \<in> set xs \<Longrightarrow> steps_by f m (body x)"
  shows "steps_by f (length xs * m) (for_each xs body)"
  using assms
proof (induction xs)
  case Nil
  show ?case by (simp add: steps_by_def ret_def)
next
  case (Cons x xs)
  have hd: "steps_by f m (body x)" using Cons.prems by simp
  have tl: "steps_by f (length xs * m) (for_each xs body)" using Cons by simp
  show ?case
    unfolding steps_by_def
  proof
    fix c
    obtain k1 where k1: "k1 \<le> m" "az_calls (fst (body x c)) = map f [c..<c + k1]"
      "\<And>c'. snd (body x c) = Inr c' \<Longrightarrow> k1 = m \<and> c' = c + m"
      using hd unfolding steps_by_def by blast
    show "\<exists>k\<le>length (x # xs) * m.
            az_calls (fst (for_each (x # xs) body c)) = map f [c..<c + k] \<and>
            (\<forall>c'. snd (for_each (x # xs) body c) = Inr c' \<longrightarrow> k = length (x # xs) * m \<and> c' = c + length (x # xs) * m)"
    proof (cases "snd (body x c)")
      case (Inl e)
      then have "az_calls (fst (for_each (x # xs) body c)) = map f [c..<c + k1]"
        and "snd (for_each (x # xs) body c) = Inl e"
        using k1(2) by (simp_all add: fst_run_bind snd_run_bind)
      moreover have "k1 \<le> length (x # xs) * m" using k1(1) by simp
      ultimately show ?thesis by auto
    next
      case (Inr c1)
      then have c1: "k1 = m" "c1 = c + m" using k1(3) by auto
      obtain k2 where k2: "k2 \<le> length xs * m"
        "az_calls (fst (for_each xs body c1)) = map f [c1..<c1 + k2]"
        "\<And>c'. snd (for_each xs body c1) = Inr c' \<Longrightarrow> k2 = length xs * m \<and> c' = c1 + length xs * m"
        using tl unfolding steps_by_def by blast
      have "[c..<c + (m + k2)] = [c..<c + m] @ [c + m..<c + m + k2]"
        by (metis add.assoc le_add1 upt_add_eq_append)
      then have "az_calls (fst (for_each (x # xs) body c)) = map f [c..<c + (m + k2)]"
        using Inr k1(2) k2(2) c1 by (simp add: fst_run_bind az_calls_append)
      moreover have "snd (for_each (x # xs) body c) = snd (for_each xs body c1)"
        using Inr by (simp add: snd_run_bind)
      moreover have "m + k2 \<le> length (x # xs) * m" using k2(1) by simp
      ultimately show ?thesis using k2(3) c1 by (intro exI[of _ "m + k2"]) auto
    qed
  qed
qed

lemma az_calls_Screenshots: "az_calls (map Screenshot fs) = []"
  by (induction fs) simp_all

lemma steps_by_frame:
  "steps_by (ramp (length vis_set * S)) 1 (frame plot decode L C vis_set S dir i j)"
  unfolding steps_by_def
proof
  fix c
  define v where "v = ramp (length vis_set * S) c"
  define Q :: "nat run \<Rightarrow> bool" where
    "Q r \<longleftrightarrow> (az_calls (fst r) = [] \<and> (\<forall>c'. snd r \<noteq> Inr c'))
        \<or> (az_calls (fst r) = [v] \<and> (\<forall>c'. snd r = Inr c' \<longrightarrow> c' = c + 1))" for r
  have Q_lift: "Q (run_bind (lift_err m) f)" if "\<And>a. m = Inr a \<Longrightarrow> Q (f a)" for m and f :: "'x \<Rightarrow> nat run"
    using that by (cases m) (simp_all add: run_bind_lift_err Q_def)
  have Q_silent: "Q (run_bind m f)" if "az_calls (fst m) = []" "\<And>a. Q (f a)" for m :: "unit run" and f
  proof (cases "snd m")
    case (Inl e)
    then show ?thesis using that(1) by (simp add: Q_def fst_run_bind snd_run_bind)
  next
    case (Inr a)
    then show ?thesis using that(1) that(2)[of a]
      by (simp add: Q_def fst_run_bind snd_run_bind az_calls_append)
  qed
  have html: "az_calls (fst (if j = 0
               then run_bind (lift_err (row vis_set i)) (\<lambda>pc. PC_html pc pcs (html_name dir i))
               else ret ())) = []" for pcs
    by (cases "row vis_set i") (simp_all add: run_bind_lift_err PC_html_def emit_def ret_def)
  have last: "Q (run_bind (emit (Call_plot3 nm v col)) (\<lambda>_.
                run_bind (rendered (plot pcs nm kws)) (\<lambda>_. ret (c + 1))))" for nm col pcs kws
    by (cases "snd (plot pcs nm kws)")
       (simp_all add: Q_def run_bind_emit fst_run_bind snd_run_bind rendered_def ret_def
          az_calls_Screenshots)
  have azv: "a = v" if "az ar_range c (length vis_set) S = Inr a" for a
    using that by (simp add: az_closed v_def ramp_def split: if_splits)
  have "Q (frame plot decode L C vis_set S dir i j c)"
    unfolding frame_def Let_def
    apply (rule Q_lift)
    apply (rule Q_lift)
    apply (rule Q_silent)
     apply (rule html)
    apply (rule Q_lift)
    apply (drule azv)
    apply (simp only:)
    apply (rule last)
    done
  then show "\<exists>k\<le>1. az_calls (fst (frame plot decode L C vis_set S dir i j c)) =
                map (ramp (length vis_set * S)) [c..<c + k] \<and>
            (\<forall>c'. snd (frame plot decode L C vis_set S dir i j c) = Inr c' \<longrightarrow> k = 1 \<and> c' = c + 1)"
    unfolding Q_def v_def
  proof (elim disjE conjE)
    assume "az_calls (fst (frame plot decode L C vis_set S dir i j c)) = []"
      "\<forall>c'. snd (frame plot decode L C vis_set S dir i j c) \<noteq> Inr c'"
    then show ?thesis by (intro exI[of _ 0]) simp
  next
    assume "az_calls (fst (frame plot decode L C vis_set S dir i j c)) = [ramp (length vis_set * S) c]"
      "\<forall>c'. snd (frame plot decode L C vis_set S dir i j c) = Inr c' \<longrightarrow> c' = c + 1"
    then show ?thesis by (intro exI[of _ 1]) simp
  qed
qed

lemma steps_by_interp_loop:
  "steps_by (ramp (length vis_set * S)) (length vis_set * S)
     (\<lambda>c. for_each [0..<length vis_set] (\<lambda>i.
       for_each [0..<S] (\<lambda>j. frame plot decode L C vis_set S dir i j)) c)"
proof -
  have inner: "steps_by (ramp (length vis_set * S)) S
      (for_each [0..<S] (\<lambda>j. frame plot decode L C vis_set S dir i j))" for i
    using steps_by_for_each[of "[0..<S]" "ramp (length vis_set * S)" 1
        "\<lambda>j. frame plot decode L C vis_set S dir i j"] steps_by_frame
    by simp
  show ?thesis
    using steps_by_for_each[of "[0..<length vis_set]" "ramp (length vis_set * S)" S
        "\<lambda>i. for_each [0..<S] (\<lambda>j. frame plot decode L C vis_set S dir i j)"] inner
    by simp
qed

lemma interp_loop_az_calls:
  "\<exists>k\<le>length vis_set * S.
     az_calls (fst (interp_loop plot decode L C vis_set S dir)) = map (ramp (length vis_set * S)) [0..<k]
     \<and> (\<forall>c'. snd (interp_loop plot decode L C vis_set S dir) = Inr c' \<longrightarrow>
            k = length vis_set * S \<and> c' = length vis_set * S)"
  using steps_by_interp_loop[of vis_set S plot decode L C dir]
  unfolding steps_by_def interp_loop_def
  by (metis add_0)

lemma for_each_succeeds:
  assumes "\<And>x s. x \<in> set xs \<Longrightarrow> \<exists>s'. snd (body x s) = Inr s'"
  shows "\<exists>s'. snd (for_each xs body s) = Inr s'"
  using assms
proof (induction xs arbitrary: s)
  case Nil
  show ?case by (simp add: ret_def)
next
  case (Cons x xs)
  obtain s1 where s1: "snd (body x s) = Inr s1" using Cons.prems[of x s] by auto
  obtain s2 where "snd (for_each xs body s1) = Inr s2" using Cons.IH[of s1] Cons.prems by auto
  then show ?case using s1 by (simp add: snd_run_bind)
qed

lemma mono_ramp: "c \<le> d \<Longrightarrow> ramp N c \<le> ramp N d"
  by (simp add: ramp_def divide_right_mono mult_right_mono)

lemma sorted_map_ramp: "sorted (map (ramp N) [a..<b])"
  by (simp add: sorted_iff_nth_mono mono_ramp)

subsection \<open>Azimuth monotonicity\<close>

text \<open>
  Claim C8. Whatever the plotting function, the network and the arrays are, the azimuths
  passed to the \<^verbatim>\<open>plot3\<close> calls of one run of the loop, in the order of the calls,
  are non-decreasing.
\<close>

theorem az_calls_sorted:
  "sorted (az_calls (fst (interp_loop plot decode L C vis_set
      S dir)))"
proof -
  obtain k where "az_calls (fst (interp_loop plot decode L C vis_set
      S dir)) = map (ramp (length vis_set * S)) [0..<k]"
    using interp_loop_az_calls by blast
  then show ?thesis by (simp only: sorted_map_ramp)
qed




lemma shp_interp_returns:
  assumes "i + 1 < length L" and "2 \<le> S"
  shows "\<exists>v. shp_interp L i j S = Inr v"
  unfolding shp_interp_def truediv_steps[OF assms(2)] using assms(1)
  by (simp add: row_def err_bind_def)

lemma col_interp_returns:
  assumes "i + 1 < length C" and "2 \<le> S"
  shows "\<exists>v. col_interp C i j S = Inr v"
  unfolding col_interp_def truediv_steps[OF assms(2)] using assms(1)
  by (simp add: row_def err_bind_def)

lemma plot3_rejects: "plot3 PC Filename [''az'', ''col''] = ([], Inl TypeError)"
  by (simp add: plot3_def bind_call_def plot3_params_def)

lemma frame0_plot3:
  assumes "0 < length vis_set" "1 < length L" "1 < length C" "2 \<le> S"
  shows "snd (frame plot3 decode L C vis_set S dir 0 0 0) = Inl TypeError"
    and "screenshots (fst (frame plot3 decode L C vis_set S dir 0 0 0)) = []"
    and "az_calls (fst (frame plot3 decode L C vis_set S dir 0 0 0)) = [90 - real ar_range / 2]"
proof -
  obtain shp where shp: "shp_interp L 0 0 S = Inr shp"
    using shp_interp_returns[of 0 L S 0] assms by auto
  obtain col where col: "col_interp C 0 0 S = Inr col"
    using col_interp_returns[of 0 C S 0] assms by auto
  have r: "row vis_set 0 = Inr (vis_set ! 0)" using assms(1) by (simp add: row_def)
  have a: "az ar_range 0 (length vis_set) S = Inr (90 - real ar_range / 2)"
    using assms(1,4) by (simp add: az_closed)
  have fr: "frame plot3 decode L C vis_set S dir 0 0 0 =
      ([Write_html (html_name dir 0), Call_plot3 (pc_name dir 0 0) (90 - real ar_range / 2) col],
       Inl TypeError)"
    unfolding frame_def shp col r a plot3_rejects
    by (simp add: run_bind_def lift_err_def emit_def rendered_def PC_html_def)
  show "snd (frame plot3 decode L C vis_set S dir 0 0 0) = Inl TypeError"
    and "screenshots (fst (frame plot3 decode L C vis_set S dir 0 0 0)) = []"
    and "az_calls (fst (frame plot3 decode L C vis_set S dir 0 0 0)) = [90 - real ar_range / 2]"
    unfolding fr by simp_all
qed

lemma for_each_first_raises:
  assumes "xs \<noteq> []" and "snd (body (hd xs) s) = Inl e"
  shows "for_each xs body s = (fst (body (hd xs) s), Inl e)"
  using assms by (cases xs) (simp_all add: run_bind_def)

lemma interp_loop_plot3_run:
  assumes "0 < length vis_set" and "1 < length L" and "1 < length C" and "2 \<le> S"
  shows "interp_loop plot3 decode L C vis_set S dir =
           (fst (frame plot3 decode L C vis_set S dir 0 0 0), Inl TypeError)"
proof -
  let ?fr = "frame plot3 decode L C vis_set S dir"
  have S: "[0..<S] \<noteq> []" "hd [0..<S] = 0" using assms(4) by (simp_all add: upt_rec)
  have n: "[0..<length vis_set] \<noteq> []" "hd [0..<length vis_set] = 0"
    using assms(1) by (simp_all add: upt_rec)
  have inner: "for_each [0..<S] (\<lambda>j. ?fr 0 j) 0 = (fst (?fr 0 0 0), Inl TypeError)"
    using for_each_first_raises[of "[0..<S]" "\<lambda>j. ?fr 0 j" 0 TypeError] S
      frame0_plot3(1)[OF assms] by simp
  show ?thesis
    unfolding interp_loop_def
    using for_each_first_raises[of "[0..<length vis_set]"
        "\<lambda>i. for_each [0..<S] (\<lambda>j. ?fr i j)" 0 TypeError] n inner by simp
qed


subsection \<open>Azimuth coverage\<close>





subsection \<open>The frames that are written\<close>

text \<open>
  Claim C3 asks for the number of PNG frames the loop produces. The call of line 399
  passes the keywords \<^verbatim>\<open>az\<close> and \<^verbatim>\<open>col\<close> to \<^verbatim>\<open>plot3\<close>, whose
  definition (line 124) has the parameters \<^verbatim>\<open>PC\<close>, \<^verbatim>\<open>Filename\<close> and
  \<^verbatim>\<open>colorname\<close> only. So whenever the loop has a first frame, that frame's call
  raises \<^verbatim>\<open>TypeError\<close> before the body of \<^verbatim>\<open>plot3\<close> runs: the run ends
  there, one call has been attempted (at the azimuth \<open>90 - range/2\<close>) and no PNG file
  has been written.
\<close>

theorem interp_loop_plot3_raises:
  assumes "0 < length vis_set" and "1 < length L" and "1 < length C" and "2 \<le> S"
  shows "snd (interp_loop plot3 decode L C vis_set S dir) = Inl TypeError
       \<and> screenshots (fst (interp_loop plot3 decode L C vis_set S dir)) = []
       \<and> az_calls (fst (interp_loop plot3 decode L C vis_set S dir)) = [90 - real ar_range / 2]"
  unfolding interp_loop_plot3_run[OF assms] using frame0_plot3(2,3)[OF assms] by simp

theorem interp_loop_plot3_raises_witness:
  "snd (interp_loop plot3 (\<lambda>_. []) [[0], [1], [2], [3], [0]]
          [[0,0,1], [0,0,1], [1,0,0], [1,0,0], [0,0,1]] [[], [], [], []] 5 ''d'') = Inl TypeError
   \<and> screenshots (fst (interp_loop plot3 (\<lambda>_. []) [[0], [1], [2], [3], [0]]
          [[0,0,1], [0,0,1], [1,0,0], [1,0,0], [0,0,1]] [[], [], [], []] 5 ''d'')) = []
   \<and> az_calls (fst (interp_loop plot3 (\<lambda>_. []) [[0], [1], [2], [3], [0]]
          [[0,0,1], [0,0,1], [1,0,0], [1,0,0], [0,0,1]] [[], [], [], []] 5 ''d'')) = [0]"
  using interp_loop_plot3_raises[of "[[], [], [], []]" "[[0], [1], [2], [3], [0]]"
      "[[0,0,1], [0,0,1], [1,0,0], [1,0,0], [0,0,1]]" 5 "\<lambda>_. []" "''d''"]
  by (simp add: ar_range_def)

text \<open>
  With a plotting function that takes the two keywords, the same loop returns after
  \<open>n_shapes * n_steps_interp\<close> calls, one per pair of a shape and a step: twenty for two
  training shapes, two test shapes and five steps.
\<close>

lemma frame_succeeds:
  assumes "i < length vis_set" and "i + 1 < length L" and "i + 1 < length C" and "2 \<le> S"
    and "\<And>pc nm. snd (plot pc nm [''az'', ''col'']) = Inr ()"
  shows "\<exists>c'. snd (frame plot decode L C vis_set S dir i j c) = Inr c'"
proof -
  obtain shp where shp: "shp_interp L i j S = Inr shp"
    using shp_interp_returns[OF assms(2,4)] by auto
  obtain col where col: "col_interp C i j S = Inr col"
    using col_interp_returns[OF assms(3,4)] by auto
  have r: "row vis_set i = Inr (vis_set ! i)" using assms(1) by (simp add: row_def)
  have "length vis_set * S \<noteq> 0" using assms(1,4) by auto
  then obtain a where a: "az ar_range c (length vis_set) S = Inr a"
    by (simp add: az_closed)
  show ?thesis
    unfolding frame_def shp col r a
    by (cases "j = 0")
       (simp_all add: run_bind_def lift_err_def emit_def rendered_def PC_html_def ret_def
          Let_def assms(5))
qed

lemma interp_loop_succeeds:
  assumes "length L = length vis_set + 1" and "length C = length vis_set + 1" and "2 \<le> S"
    and "\<And>pc nm. snd (plot pc nm [''az'', ''col'']) = Inr ()"
  shows "snd (interp_loop plot decode L C vis_set S dir) = Inr (length vis_set * S)"
    and "length (az_calls (fst (interp_loop plot decode L C vis_set S dir))) = length vis_set * S"
proof -
  have inner: "\<exists>c'. snd (for_each [0..<S] (\<lambda>j. frame plot decode L C vis_set S dir i j) c) = Inr c'"
    if "i < length vis_set" for i c
  proof (rule for_each_succeeds)
    fix j s
    show "\<exists>s'. snd (frame plot decode L C vis_set S dir i j s) = Inr s'"
      using that assms by (intro frame_succeeds) simp_all
  qed
  have "\<exists>c'. snd (interp_loop plot decode L C vis_set S dir) = Inr c'"
    unfolding interp_loop_def
  proof (rule for_each_succeeds)
    fix i s
    assume "i \<in> set [0..<length vis_set]"
    then show "\<exists>s'. snd (for_each [0..<S] (\<lambda>j. frame plot decode L C vis_set S dir i j) s) = Inr s'"
      using inner by simp
  qed
  then obtain c' where c': "snd (interp_loop plot decode L C vis_set S dir) = Inr c'" by blast
  obtain k where k: "az_calls (fst (interp_loop plot decode L C vis_set S dir)) =
        map (ramp (length vis_set * S)) [0..<k]"
     "k = length vis_set * S \<and> c' = length vis_set * S"
    using interp_loop_az_calls[of vis_set S plot decode L C dir] c' by blast
  show "snd (interp_loop plot decode L C vis_set S dir) = Inr (length vis_set * S)"
    using c' k(2) by simp
  show "length (az_calls (fst (interp_loop plot decode L C vis_set S dir))) = length vis_set * S"
    using k by simp
qed

lemma interp_loop_twenty_calls:
  "snd (interp_loop plot_accepting decode [l0, l1, l2, l3, l0] [c0, c1, c2, c3, c4]
          [v0, v1, v2, v3] 5 dir) = Inr 20
   \<and> length (az_calls (fst (interp_loop plot_accepting decode [l0, l1, l2, l3, l0]
          [c0, c1, c2, c3, c4] [v0, v1, v2, v3] 5 dir))) = 20"
  using interp_loop_succeeds[of "[l0, l1, l2, l3, l0]" "[v0, v1, v2, v3]" "[c0, c1, c2, c3, c4]" 5
      plot_accepting decode dir]
  by (simp add: plot_accepting_def)

subsection \<open>Runs of the script\<close>

lemma read_csv_run:
  assumes "reader path = Inr rows" and "rows \<noteq> []"
  shows "read_csv reader path = ([Read_csv path], Inr rows)"
  using assms by (simp add: read_csv_def run_bind_def emit_def lift_err_def ret_def)

lemma flagVAE_returns: "flagVAE v = Inr (flagVAE v = Inr True)"
  by (cases v) (simp_all add: flagVAE_def lower_method_def err_bind_def)

lemma initialise_run:
  "initialise w a =
     ([Putenv ''CUDA_VISIBLE_DEVICES'' (format_arg (arg_GPU a)), System ''clear''],
      Inr (flagVAE (arg_VAE a) = Inr True, w_mt19937 w 0))"
proof -
  obtain b where b: "flagVAE (arg_VAE a) = Inr b" using flagVAE_returns by blast
  then have "(flagVAE (arg_VAE a) = Inr True) = b" by simp
  then show ?thesis
    using b by (simp add: initialise_def run_bind_def emit_def lift_err_def ret_def
        np_random_seed_def)
qed

lemma preprocessing_missing:
  assumes "\<not> w_exists w dir"
  shows "preprocessing w dir = ([Print (''Directory '' @ dir @ '' does not exist!'')], Inl SystemExit)"
  using assms by (simp add: preprocessing_def run_bind_def emit_def raise_def)

subsection \<open>A missing network directory\<close>

text \<open>
  Claim C7. When the network directory of the experiment does not exist, the script
  prints the message naming the directory and exits at once: nothing happens between the
  initialisation (the environment variable and the cleared screen) and the exit, so no
  geometry list, point file, normalisation file or model is loaded, no file is written,
  and nothing is tried again.
\<close>

theorem missing_directory_exits:
  assumes "\<not> w_exists w (top_dir a (flagVAE (arg_VAE a) = Inr True))"
  shows "script n_tr n_te n_steps w a =
           ([Putenv ''CUDA_VISIBLE_DEVICES'' (format_arg (arg_GPU a)),
             System ''clear'',
             Print (''Directory '' @ top_dir a (flagVAE (arg_VAE a) = Inr True) @ '' does not exist!'')],
            Inl SystemExit)"
  unfolding script_def initialise_run
  by (simp add: run_bind_def preprocessing_missing[OF assms])

lemma preprocessing_present:
  assumes "w_exists w dir"
  shows "\<exists>rest r. preprocessing w dir =
           (System (''cp '' @ dir @ ''/log_dictionary.py .'') # Import_module ''log_dictionary'' # rest, r)"
  using assms
  by (simp add: preprocessing_def run_bind_def emit_def ret_def lift_err_def split: sum.splits)

subsection \<open>Repeatability of the selection\<close>

lemma preprocessing_entropy: "preprocessing (w\<lparr>w_entropy := e\<rparr>) dir = preprocessing w dir"
  by (simp add: preprocessing_def)

lemma load_training_entropy: "load_training (w\<lparr>w_entropy := e\<rparr>) = load_training w"
  by (simp add: load_training_def fun_eq_iff)

lemma load_testing_entropy: "load_testing (w\<lparr>w_entropy := e\<rparr>) = load_testing w"
  by (simp add: load_testing_def fun_eq_iff)

lemma load_shapes_entropy: "load_shapes (w\<lparr>w_entropy := e\<rparr>) = load_shapes w"
  by (simp add: load_shapes_def fun_eq_iff load_training_entropy load_testing_entropy)

lemma normalise_entropy: "normalise (w\<lparr>w_entropy := e\<rparr>) = normalise w"
  by (simp add: normalise_def fun_eq_iff)

lemma visualise_entropy: "visualise (w\<lparr>w_entropy := e\<rparr>) = visualise w"
  by (simp add: visualise_def fun_eq_iff)

lemma script_entropy: "script n_tr n_te n_steps (w\<lparr>w_entropy := e\<rparr>) a = script n_tr n_te n_steps w a"
  unfolding script_def initialise_run
  by (simp add: preprocessing_entropy load_shapes_entropy normalise_entropy visualise_entropy)

text \<open>
  Claim C10. The generator is seeded with 0 before the first draw, so whatever state it
  starts in, two runs on the same files and flags are the same run: the same effects in
  the same order, among them every call of \<^verbatim>\<open>np.random.choice\<close> with the sample it
  returned, that is, the selected training shapes, the selected test shapes and the
  resampled point indices of every shape.
\<close>

theorem runs_agree:
  "main (w\<lparr>w_entropy := e1\<rparr>) a = main (w\<lparr>w_entropy := e2\<rparr>) a
   \<and> choices (fst (main (w\<lparr>w_entropy := e1\<rparr>) a)) = choices (fst (main (w\<lparr>w_entropy := e2\<rparr>) a))"
  by (simp add: main_def script_entropy)

text \<open>
  The seed is what makes it so: the sample that \<^verbatim>\<open>np.random.choice\<close> returns does
  depend on the state of the generator.
\<close>

lemma choice_depends_on_state:
  "fst (np_random_choice 2 1 True (\<lambda>k. 0)) \<noteq> fst (np_random_choice 2 1 True (\<lambda>k. 1))"
  by (simp add: np_random_choice_def random_choice_def randint_def run_bind_def lift_err_def
      emit_def ret_def)

subsection \<open>Normalisation bounds\<close>

text \<open>
  Claim C6. With the maximum and the minimum read from the normalisation file (in this
  order, and different from each other), normalising the batch applies one and the same
  function to every coordinate of every point, and this function sends the recorded
  minimum to 0.1 and the recorded maximum to 0.9.
\<close>

theorem normalise_bounds:
  assumes "w_read_numbers w (dir @ ''/normvalues.csv'') = Inr (maX # miX # rest)"
    and "miX \<noteq> maX"
  shows "\<exists>f. normalise w dir vis_set =
               ([Read_csv (dir @ ''/normvalues.csv'')], Inr (map (map (map_point f)) vis_set))
           \<and> f miX = 1/10 \<and> f maX = 9/10"
proof -
  let ?f = "\<lambda>x. (x - miX) / (maX - miX) * (9/10 - 1/10) + 1/10"
  have rd: "read_csv (w_read_numbers w) (dir @ ''/normvalues.csv'') =
      ([Read_csv (dir @ ''/normvalues.csv'')], Inr (maX # miX # rest))"
    using read_csv_run[of "w_read_numbers w" "dir @ ''/normvalues.csv''" "maX # miX # rest"] assms(1)
    by simp
  have "normalise w dir vis_set =
      ([Read_csv (dir @ ''/normvalues.csv'')], Inr (map (map (map_point ?f)) vis_set))"
    unfolding normalise_def rd
    by (simp add: run_bind_def lift_err_def row_def ret_def data_set_norm_def)
  moreover have "?f miX = 1/10" by simp
  moreover have "?f maX = 9/10" using assms(2) by simp
  ultimately show ?thesis by blast
qed

subsection \<open>Resampling\<close>

lemma randints_length: "length (fst (randints n k g)) = k"
  by (induction k arbitrary: g) (simp_all add: split_def Let_def)

lemma randints_below: "0 < n \<Longrightarrow> x \<in> set (fst (randints n k g)) \<Longrightarrow> x < n"
  by (induction k arbitrary: g) (auto simp: split_def Let_def randint_def)

lemma shuffle_keeps:
  "i < length xs \<Longrightarrow>
     length (fst (shuffle i xs g)) = length xs
     \<and> set (fst (shuffle i xs g)) = set xs
     \<and> distinct (fst (shuffle i xs g)) = distinct xs"
proof (induction i arbitrary: xs g)
  case 0
  show ?case by simp
next
  case (Suc i)
  let ?j = "g 0 mod Suc (Suc i)"
  have j: "?j < length xs" using Suc.prems by (meson Suc_lessI less_Suc_eq mod_less_divisor not_less_eq zero_less_Suc less_trans_Suc order_less_trans)
  let ?ys = "xs[Suc i := xs ! ?j, ?j := xs ! Suc i]"
  have "length ?ys = length xs" by simp
  moreover have "set ?ys = set xs" using set_swap[OF Suc.prems j] by simp
  moreover have "distinct ?ys = distinct xs" using distinct_swap[OF Suc.prems j] by simp
  moreover have "i < length ?ys" using Suc.prems by simp
  ultimately show ?case
    using Suc.IH[of ?ys "\<lambda>k. g (Suc k)"] by (simp add: randint_def)
qed

lemma permutation_keeps:
  "length (fst (permutation n g)) = n
   \<and> set (fst (permutation n g)) = {0..<n}
   \<and> distinct (fst (permutation n g))"
proof (cases n)
  case 0
  then show ?thesis by (simp add: permutation_def)
next
  case (Suc m)
  then show ?thesis
    using shuffle_keeps[of m "[0..<n]" g] by (simp add: permutation_def atLeast0_lessThan_Suc)
qed

lemma random_choice_sample:
  assumes "0 < n"
  shows "\<exists>idx g1. random_choice n k (n < k) g = Inr (idx, g1)
          \<and> length idx = k \<and> list_all (\<lambda>i. i < n) idx \<and> (k \<le> n \<longrightarrow> distinct idx)"
proof (cases "n < k")
  case True
  then show ?thesis
    using assms randints_length[of n k g] randints_below[OF assms, of _ k g]
    by (cases "randints n k g") (auto simp: random_choice_def list_all_iff)
next
  case False
  obtain p g1 where p: "permutation n g = (p, g1)" by (cases "permutation n g")
  have "length p = n" "set p = {0..<n}" "distinct p"
    using permutation_keeps[of n g] p by simp_all
  then have "length (take k p) = k" "list_all (\<lambda>i. i < n) (take k p)" "distinct (take k p)"
    using False by (auto simp: list_all_iff dest: in_set_takeD)
  then show ?thesis
    using False assms p by (simp add: random_choice_def)
qed

lemma pc_sample_run:
  assumes "pc_load \<noteq> []"
  shows "\<exists>idx g1. pc_sample pc_load pc_size g =
            ([Random_choice (length pc_load) pc_size (length pc_load < pc_size) idx], Inr (idx, g1))
          \<and> length idx = pc_size \<and> list_all (\<lambda>i. i < length pc_load) idx
          \<and> (pc_size \<le> length pc_load \<longrightarrow> distinct idx)"
proof -
  have n: "0 < length pc_load" using assms by simp
  obtain idx g1 where c: "random_choice (length pc_load) pc_size (length pc_load < pc_size) g = Inr (idx, g1)"
    "length idx = pc_size" "list_all (\<lambda>i. i < length pc_load) idx"
    "pc_size \<le> length pc_load \<longrightarrow> distinct idx"
    using random_choice_sample[OF n, of pc_size g] by blast
  have "pc_sample pc_load pc_size g =
      np_random_choice (length pc_load) pc_size (length pc_load < pc_size) g"
    by (simp add: pc_sample_def)
  also have "\<dots> = ([Random_choice (length pc_load) pc_size (length pc_load < pc_size) idx], Inr (idx, g1))"
    unfolding np_random_choice_def c(1)
    by (simp add: run_bind_def lift_err_def emit_def ret_def)
  finally show ?thesis using c(2,3,4) by blast
qed

text \<open>
  Claim C5. For a cloud that was loaded (it has a point), both loading loops call
  \<^verbatim>\<open>np.random.choice\<close> for \<^verbatim>\<open>pc_size\<close> indices out of the loaded number of
  points, with replacement exactly when the cloud has fewer than \<^verbatim>\<open>pc_size\<close>
  points (so without when the numbers are equal); the indices are then distinct in the
  branch without replacement, and in both branches the cloud stored in the slot of the
  batch is the gather of the sampled points and has exactly \<^verbatim>\<open>pc_size\<close> points.
\<close>

theorem resampled_cloud_size:
  assumes "row geom i = Inr path" and "w_read_points w path = Inr pc_load" and "pc_load \<noteq> []"
    and "ls_cntr s < length (ls_vis_set s)" and "ls_cntr s < length (ls_color_shape s)"
    and "length (ls_color_shape s ! ls_cntr s) = 3"
  shows "\<exists>idx s1 s2.
           load_training w geom pc_size i s =
             ([Read_csv path, Random_choice (length pc_load) pc_size (length pc_load < pc_size) idx],
              Inr s1)
         \<and> load_testing w geom pc_size i s =
             ([Read_csv path, Random_choice (length pc_load) pc_size (length pc_load < pc_size) idx],
              Inr s2)
         \<and> length idx = pc_size
         \<and> (pc_size \<le> length pc_load \<longrightarrow> distinct idx)
         \<and> ls_vis_set s1 ! ls_cntr s = map (\<lambda>k. pc_load ! k) idx
         \<and> ls_vis_set s2 ! ls_cntr s = map (\<lambda>k. pc_load ! k) idx
         \<and> length (ls_vis_set s1 ! ls_cntr s) = pc_size
         \<and> length (ls_vis_set s2 ! ls_cntr s) = pc_size"
proof -
  obtain idx g1 where c: "pc_sample pc_load pc_size (ls_rng s) =
            ([Random_choice (length pc_load) pc_size (length pc_load < pc_size) idx], Inr (idx, g1))"
     "length idx = pc_size" "list_all (\<lambda>i. i < length pc_load) idx"
     "pc_size \<le> length pc_load \<longrightarrow> distinct idx"
    using pc_sample_run[OF assms(3), of pc_size "ls_rng s"] by blast
  have rd: "read_csv (w_read_points w) path = ([Read_csv path], Inr pc_load)"
    using read_csv_run[of "w_read_points w" path pc_load] assms(2,3) by simp
  have tr: "take_rows pc_load idx = Inr (map (\<lambda>k. pc_load ! k) idx)"
    using c(3) by (simp add: take_rows_def)
  have ne: "ls_color_shape s ! ls_cntr s \<noteq> []" "2 < length (ls_color_shape s ! ls_cntr s)"
    using assms(6) by auto
  define s1 where "s1 = s\<lparr>ls_pc_load := Some pc_load, ls_log_reconst := ls_log_reconst s @ [path],
      ls_pc_sample := Some idx, ls_rng := g1,
      ls_color_shape := (ls_color_shape s)[ls_cntr s := (ls_color_shape s ! ls_cntr s)[2 := 1]],
      ls_vis_set := (ls_vis_set s)[ls_cntr s := map (\<lambda>k. pc_load ! k) idx],
      ls_cntr := ls_cntr s + 1\<rparr>"
  define s2 where "s2 = s\<lparr>ls_log_reconst := ls_log_reconst s @ [path], ls_pc_load := Some pc_load,
      ls_pc_sample := Some idx, ls_rng := g1,
      ls_color_shape := (ls_color_shape s)[ls_cntr s := (ls_color_shape s ! ls_cntr s)[0 := 1]],
      ls_vis_set := (ls_vis_set s)[ls_cntr s := map (\<lambda>k. pc_load ! k) idx],
      ls_cntr := ls_cntr s + 1\<rparr>"
  have t1: "load_training w geom pc_size i s =
             ([Read_csv path, Random_choice (length pc_load) pc_size (length pc_load < pc_size) idx],
              Inr s1)"
    unfolding load_training_def
    using assms(4,5) ne
    by (simp add: assms(1) rd c(1) tr run_bind_def lift_err_def ret_def set_entry_def
        set_row_def s1_def Let_def)
  have t2: "load_testing w geom pc_size i s =
             ([Read_csv path, Random_choice (length pc_load) pc_size (length pc_load < pc_size) idx],
              Inr s2)"
    unfolding load_testing_def
    using assms(4,5) ne
    by (simp add: assms(1) rd c(1) tr run_bind_def lift_err_def ret_def set_entry_def
        set_row_def s2_def Let_def)
  have v1: "ls_vis_set s1 ! ls_cntr s = map (\<lambda>k. pc_load ! k) idx"
    using assms(4) by (simp add: s1_def)
  have v2: "ls_vis_set s2 ! ls_cntr s = map (\<lambda>k. pc_load ! k) idx"
    using assms(4) by (simp add: s2_def)
  show ?thesis
    using t1 t2 v1 v2 c(2,4) by (intro exI[of _ idx] exI[of _ s1] exI[of _ s2]) simp
qed

subsection \<open>Concrete runs\<close>

lemma format_examples:
  "format_arg (Some 2048) = ''2048''" "format_arg (Some 128) = ''128''"
  "format_arg (Some 0) = ''0''" "format_arg None = ''None''"
  "format_arg (Some 2) = ''2''" "format_arg (Some 1) = ''1''"
  by code_simp+

lemma flag_examples: "flagVAE (Some ''True'') = Inr True" "flagVAE None = Inr False"
  by code_simp+

theorem missing_directory_exits_witness:
  "main example_world \<lparr>arg_N = Some 2048, arg_LR = Some 128, arg_GPU = Some 0, arg_VAE = Some ''True''\<rparr> =
     ([Putenv ''CUDA_VISIBLE_DEVICES'' ''0'', System ''clear'',
       Print ''Directory Network_v_pcae_N2048_LR128 does not exist!''],
      Inl SystemExit)"
  using missing_directory_exits[of example_world
      "\<lparr>arg_N = Some 2048, arg_LR = Some 128, arg_GPU = Some 0, arg_VAE = Some ''True''\<rparr>"
      n_shapes_trainingset n_shapes_testset n_steps_interp]
  by (simp add: main_def top_dir_def name_exp_def format_examples flag_examples example_world_def)

lemmas run_defs = run_bind_def emit_def lift_err_def ret_def raise_def

lemma normalise_example:
  "normalise example_world ''Network_pcae_N2_LR1'' [[(-2, 0, 2)]] =
     ([Read_csv ''Network_pcae_N2_LR1/normvalues.csv''], Inr [[(1/10, 1/2, 9/10)]])"
  by (simp add: normalise_def read_csv_def run_defs row_def data_set_norm_def map_point_def
      example_world_def)

theorem normalise_bounds_witness:
  "normalise example_world ''Network_pcae_N2_LR1'' [[(-2, 0, 2)]] =
     ([Read_csv ''Network_pcae_N2_LR1/normvalues.csv''], Inr [[(1/10, 1/2, 9/10)]])"
  using normalise_bounds[of example_world "''Network_pcae_N2_LR1''" 2 "-2" "[]" "[[(-2, 0, 2)]]"]
    normalise_example
  by simp

lemma run_bind_Inr: "run_bind (es, Inr a) f = (es @ fst (f a), snd (f a))"
  by (simp add: run_bind_def)

lemma run_bind_Inl: "run_bind (es, Inl e) f = (es, Inl e)"
  by (simp add: run_bind_def)

lemmas run_steps = run_bind_Inr run_bind_Inl emit_def lift_err_def ret_def raise_def

lemma randints_example: "randints 2 3 (\<lambda>k. k) = ([0, 1, 0], \<lambda>k. k + 3)"
  by (simp add: eval_nat_numeral randint_def)

lemma pc_sample_example:
  "pc_sample [(-2, 0, 2), (1, 1, 1)] 3 (\<lambda>k. k) =
     ([Random_choice 2 3 True [0, 1, 0]], Inr ([0, 1, 0], \<lambda>k. k + 3))"
proof -
  have "length [(-2, 0, 2), (1, 1, 1) :: point] = 2" by simp
  then show ?thesis
    unfolding pc_sample_def np_random_choice_def random_choice_def
    by (simp only: randints_example) (simp add: run_steps)
qed

lemma read_points_example:
  "read_csv (w_read_points example_world) ''a.xyz'' = ([Read_csv ''a.xyz''], Inr [(-2, 0, 2), (1, 1, 1)])"
  by (simp add: read_csv_def run_steps example_world_def)

lemma load_training_example:
  "load_training example_world [''a.xyz''] 3 0 example_state =
     ([Read_csv ''a.xyz'', Random_choice 2 3 True [0, 1, 0]],
      Inr \<lparr>ls_rng = (\<lambda>k. k + 3),
           ls_vis_set = [[(-2, 0, 2), (1, 1, 1), (-2, 0, 2)], []],
           ls_color_shape = [[0, 0, 1], [0, 0, 0], [0, 0, 0]],
           ls_log_reconst = [''a.xyz''],
           ls_cntr = 1,
           ls_pc_load = Some [(-2, 0, 2), (1, 1, 1)],
           ls_pc_sample = Some [0, 1, 0]\<rparr>)"
proof -
  have g: "ls_rng example_state = (\<lambda>k. k)" by (simp add: example_state_def)
  show ?thesis
    unfolding load_training_def
    apply (simp add: row_def run_steps read_points_example Let_def g pc_sample_example)
    apply (simp add: example_state_def set_entry_def take_rows_def set_row_def run_steps)
    done
qed

lemma load_testing_example:
  "load_testing example_world [''a.xyz''] 3 0 example_state =
     ([Read_csv ''a.xyz'', Random_choice 2 3 True [0, 1, 0]],
      Inr \<lparr>ls_rng = (\<lambda>k. k + 3),
           ls_vis_set = [[(-2, 0, 2), (1, 1, 1), (-2, 0, 2)], []],
           ls_color_shape = [[1, 0, 0], [0, 0, 0], [0, 0, 0]],
           ls_log_reconst = [''a.xyz''],
           ls_cntr = 1,
           ls_pc_load = Some [(-2, 0, 2), (1, 1, 1)],
           ls_pc_sample = Some [0, 1, 0]\<rparr>)"
proof -
  have g: "ls_rng example_state = (\<lambda>k. k)" by (simp add: example_state_def)
  show ?thesis
    unfolding load_testing_def
    apply (simp add: row_def run_steps read_points_example Let_def g pc_sample_example)
    apply (simp add: example_state_def set_entry_def take_rows_def set_row_def run_steps)
    done
qed

theorem resampled_cloud_size_witness:
  "fst (load_training example_world [''a.xyz''] 3 0 example_state) =
     [Read_csv ''a.xyz'', Random_choice 2 3 True [0, 1, 0]]
   \<and> fst (load_testing example_world [''a.xyz''] 3 0 example_state) =
     [Read_csv ''a.xyz'', Random_choice 2 3 True [0, 1, 0]]
   \<and> (\<exists>s1. snd (load_training example_world [''a.xyz''] 3 0 example_state) = Inr s1
         \<and> ls_vis_set s1 ! 0 = [(-2, 0, 2), (1, 1, 1), (-2, 0, 2)])"
  using resampled_cloud_size[of "[''a.xyz'']" 0 "''a.xyz''" example_world "[(-2, 0, 2), (1, 1, 1)]"
      example_state 3]
  unfolding load_training_example load_testing_example
  by simp

lemma top_dir_example: "top_dir example_args False = ''Network_pcae_N2_LR1''"
  by (simp add: top_dir_def name_exp_def example_args_def format_examples)

lemma initialise_example:
  "initialise example_world example_args =
     ([Putenv ''CUDA_VISIBLE_DEVICES'' ''None'', System ''clear''], Inr (False, \<lambda>k. 0))"
  unfolding initialise_run
  by (simp add: example_args_def format_examples flag_examples example_world_def)

lemma preprocessing_example:
  "preprocessing example_world ''Network_pcae_N2_LR1'' =
     ([System ''cp Network_pcae_N2_LR1/log_dictionary.py .'', Import_module ''log_dictionary'',
       System ''rm log_dictionary.py'',
       Read_csv ''Network_pcae_N2_LR1/geometries_training.csv'',
       Read_csv ''Network_pcae_N2_LR1/geometries_testing.csv''],
      Inr (\<lambda>k. if k = ''pc_size'' then Some 2 else None, [''a.xyz'', ''b.xyz''], [''b.xyz'', ''a.xyz'']))"
  by (simp add: preprocessing_def read_csv_def run_steps example_world_def)

lemma shuffle_constant: "snd (shuffle i xs (\<lambda>k. c)) = (\<lambda>k. c)"
  by (induction i arbitrary: xs) (simp_all add: randint_def)

lemma permutation_constant: "permutation n (\<lambda>k. c) = (fst (permutation n (\<lambda>k. c)), \<lambda>k. c)"
  by (simp add: permutation_def shuffle_constant prod_eq_iff)

lemma permutation_zero:
  "fst (permutation 2 (\<lambda>k. 0)) = [1, 0]" "fst (permutation 3 (\<lambda>k. 0)) = [1, 2, 0]"
  by code_simp+

lemma choice_examples:
  "np_random_choice 2 1 False (\<lambda>k. 0) = ([Random_choice 2 1 False [1]], Inr ([1], \<lambda>k. 0))"
  "np_random_choice 3 2 False (\<lambda>k. 0) = ([Random_choice 3 2 False [1, 2]], Inr ([1, 2], \<lambda>k. 0))"
  "np_random_choice 2 2 False (\<lambda>k. 0) = ([Random_choice 2 2 False [1, 0]], Inr ([1, 0], \<lambda>k. 0))"
  unfolding np_random_choice_def random_choice_def
  by (subst permutation_constant, simp add: permutation_zero run_steps)+

lemma read_points_examples:
  "read_csv (w_read_points example_world) ''a.xyz'' = ([Read_csv ''a.xyz''], Inr [(-2, 0, 2), (1, 1, 1)])"
  "read_csv (w_read_points example_world) ''b.xyz'' =
     ([Read_csv ''b.xyz''], Inr [(0, 0, 0), (1, 0, 0), (2, 0, 0)])"
  by (simp_all add: read_csv_def run_steps example_world_def)

lemma pc_sample_examples:
  "pc_sample [(0, 0, 0), (1, 0, 0), (2, 0, 0)] 2 (\<lambda>k. 0) =
     ([Random_choice 3 2 False [1, 2]], Inr ([1, 2], \<lambda>k. 0))"
  "pc_sample [(-2, 0, 2), (1, 1, 1)] 2 (\<lambda>k. 0) =
     ([Random_choice 2 2 False [1, 0]], Inr ([1, 0], \<lambda>k. 0))"
proof -
  have l: "length [(0, 0, 0), (1, 0, 0), (2, 0, 0) :: point] = 3"
    "length [(-2, 0, 2), (1, 1, 1) :: point] = 2" by simp_all
  show "pc_sample [(0, 0, 0), (1, 0, 0), (2, 0, 0)] 2 (\<lambda>k. 0) =
     ([Random_choice 3 2 False [1, 2]], Inr ([1, 2], \<lambda>k. 0))"
    unfolding pc_sample_def l by (simp add: choice_examples)
  show "pc_sample [(-2, 0, 2), (1, 1, 1)] 2 (\<lambda>k. 0) =
     ([Random_choice 2 2 False [1, 0]], Inr ([1, 0], \<lambda>k. 0))"
    unfolding pc_sample_def l by (simp add: choice_examples)
qed

lemma update_third: "[a, b, c][2 := v] = [a, b, v]"
  by (simp add: numeral_2_eq_2)

lemma load_training_example_b:
  "load_training example_world [''a.xyz'', ''b.xyz''] 2 (Suc 0)
       \<lparr>ls_rng = (\<lambda>k. 0), ls_vis_set = [[(0, 0, 0), (0, 0, 0)], [(0, 0, 0), (0, 0, 0)]],
        ls_color_shape = [[0, 0, 0], [0, 0, 0], [0, 0, 0]], ls_log_reconst = [], ls_cntr = 0,
        ls_pc_load = None, ls_pc_sample = None\<rparr> =
     ([Read_csv ''b.xyz'', Random_choice 3 2 False [1, 2]],
      Inr \<lparr>ls_rng = (\<lambda>k. 0), ls_vis_set = [[(1, 0, 0), (2, 0, 0)], [(0, 0, 0), (0, 0, 0)]],
        ls_color_shape = [[0, 0, 1], [0, 0, 0], [0, 0, 0]], ls_log_reconst = [''b.xyz''],
        ls_cntr = 1, ls_pc_load = Some [(0, 0, 0), (1, 0, 0), (2, 0, 0)],
        ls_pc_sample = Some [1, 2]\<rparr>)"
  unfolding load_training_def
  by (simp add: row_def run_steps read_points_examples pc_sample_examples Let_def set_entry_def
      take_rows_def set_row_def update_third)

lemma load_testing_example_a:
  "load_testing example_world [''b.xyz'', ''a.xyz''] 2 (Suc 0)
       \<lparr>ls_rng = (\<lambda>k. 0), ls_vis_set = [[(1, 0, 0), (2, 0, 0)], [(0, 0, 0), (0, 0, 0)]],
        ls_color_shape = [[0, 0, 1], [0, 0, 0], [0, 0, 0]], ls_log_reconst = [''b.xyz''],
        ls_cntr = Suc 0, ls_pc_load = Some [(0, 0, 0), (1, 0, 0), (2, 0, 0)],
        ls_pc_sample = Some [1, 2]\<rparr> =
     ([Read_csv ''a.xyz'', Random_choice 2 2 False [1, 0]],
      Inr \<lparr>ls_rng = (\<lambda>k. 0), ls_vis_set = [[(1, 0, 0), (2, 0, 0)], [(1, 1, 1), (-2, 0, 2)]],
        ls_color_shape = [[0, 0, 1], [1, 0, 0], [0, 0, 0]], ls_log_reconst = [''b.xyz'', ''a.xyz''],
        ls_cntr = 2, ls_pc_load = Some [(-2, 0, 2), (1, 1, 1)],
        ls_pc_sample = Some [1, 0]\<rparr>)"
  unfolding load_testing_def
  by (simp add: row_def run_steps read_points_examples pc_sample_examples Let_def set_entry_def
      take_rows_def set_row_def)

lemma for_each_single: "for_each [x] body s = body x s"
  by (cases "body x s") (simp add: run_bind_def ret_def split: sum.splits)

lemma load_shapes_example:
  "load_shapes example_world 1 1 (\<lambda>k. if k = ''pc_size'' then Some 2 else None)
       [''a.xyz'', ''b.xyz''] [''b.xyz'', ''a.xyz''] (\<lambda>k. 0) =
     ([Random_choice 2 1 False [1], Random_choice 2 1 False [1],
       Read_csv ''b.xyz'', Random_choice 3 2 False [1, 2],
       Read_csv ''a.xyz'', Random_choice 2 2 False [1, 0]],
      Inr \<lparr>ls_rng = (\<lambda>k. 0),
           ls_vis_set = [[(1, 0, 0), (2, 0, 0)], [(1, 1, 1), (-2, 0, 2)]],
           ls_color_shape = [[0, 0, 1], [1, 0, 0], [0, 0, 1]],
           ls_log_reconst = [''b.xyz'', ''a.xyz''],
           ls_cntr = 2,
           ls_pc_load = Some [(-2, 0, 2), (1, 1, 1)],
           ls_pc_sample = Some [1, 0]\<rparr>)"
proof -
  have l2: "length [''a.xyz'', ''b.xyz''] = 2" "length [''b.xyz'', ''a.xyz''] = 2" by simp_all
  have r2: "replicate 2 x = [x, x]" for x :: 'x by (simp add: numeral_2_eq_2)
  have r3: "replicate 3 x = [x, x, x]" for x :: 'x by (simp add: numeral_3_eq_3)
  show ?thesis
    unfolding load_shapes_def l2 Let_def
    by (simp add: run_steps choice_examples[unfolded One_nat_def] r2 r3
        load_training_example_b[unfolded One_nat_def]
        load_testing_example_a[unfolded One_nat_def]
        take_rows_def set_row_def set_entry_def update_third)
qed

lemma normalise_example_batch:
  "normalise example_world ''Network_pcae_N2_LR1''
       [[(1, 0, 0), (2, 0, 0)], [(1, 1, 1), (-2, 0, 2)]] =
     ([Read_csv ''Network_pcae_N2_LR1/normvalues.csv''],
      Inr [[(7/10, 1/2, 1/2), (9/10, 1/2, 1/2)], [(7/10, 7/10, 7/10), (1/10, 1/2, 9/10)]])"
  by (simp add: normalise_def read_csv_def run_steps row_def data_set_norm_def map_point_def
      example_world_def)

lemma names_example:
  "html_name ''Network_pcae_N2_LR1/point_cloud_interpolation'' 0 =
     ''Network_pcae_N2_LR1/point_cloud_interpolation/PC_0_reconstruction.html''"
  "pc_name ''Network_pcae_N2_LR1/point_cloud_interpolation'' 0 0 =
     ''Network_pcae_N2_LR1/point_cloud_interpolation/PC_00000_000.png''"
  by code_simp+

lemma frame_example:
  "fst (frame plot3 (\<lambda>z. []) [[2], [2], [2]] [[0, 0, 1], [1, 0, 0], [0, 0, 1]]
         [[(7/10, 1/2, 1/2), (9/10, 1/2, 1/2)], [(7/10, 7/10, 7/10), (1/10, 1/2, 9/10)]] 2
         ''Network_pcae_N2_LR1/point_cloud_interpolation'' 0 0 0) =
     [Write_html ''Network_pcae_N2_LR1/point_cloud_interpolation/PC_0_reconstruction.html'',
      Call_plot3 ''Network_pcae_N2_LR1/point_cloud_interpolation/PC_00000_000.png'' 0 [0, 0, 1/2]]"
  unfolding frame_def names_example plot3_rejects
  by (simp add: run_steps shp_interp_def col_interp_def row_def truediv_def err_bind_def az_def
      ar_range_def arr_add_def arr_scale_def scale_arr_def PC_html_def rendered_def Let_def)

lemma visualise_example:
  "visualise example_world 2 ''Network_pcae_N2_LR1'' False
       [[(7/10, 1/2, 1/2), (9/10, 1/2, 1/2)], [(7/10, 7/10, 7/10), (1/10, 1/2, 9/10)]]
       [[0, 0, 1], [1, 0, 0], [0, 0, 1]] =
     ([System ''mkdir Network_pcae_N2_LR1/point_cloud_interpolation'',
       Restore_graph ''Network_pcae_N2_LR1/pcae.meta'' ''Network_pcae_N2_LR1/'',
       Write_html ''Network_pcae_N2_LR1/point_cloud_interpolation/PC_0_reconstruction.html'',
       Call_plot3 ''Network_pcae_N2_LR1/point_cloud_interpolation/PC_00000_000.png'' 0 [0, 0, 1/2]],
      Inl TypeError)"
proof -
  have loop: "interp_loop plot3 (\<lambda>z. []) [[2], [2], [2]] [[0, 0, 1], [1, 0, 0], [0, 0, 1]]
         [[(7/10, 1/2, 1/2), (9/10, 1/2, 1/2)], [(7/10, 7/10, 7/10), (1/10, 1/2, 9/10)]] 2
         ''Network_pcae_N2_LR1/point_cloud_interpolation'' =
     ([Write_html ''Network_pcae_N2_LR1/point_cloud_interpolation/PC_0_reconstruction.html'',
       Call_plot3 ''Network_pcae_N2_LR1/point_cloud_interpolation/PC_00000_000.png'' 0 [0, 0, 1/2]],
      Inl TypeError)"
    by (subst interp_loop_plot3_run) (simp_all add: frame_example)
  show ?thesis
    unfolding visualise_def
    by (simp add: run_steps dir_pc_plot_def TFmetaFile_def TFDirectory_def metaf_def
        example_world_def example_network_def row_def Let_def loop)
qed

text \<open>
  One whole run, for one training shape, one test shape and two steps: the selections,
  the equal-count cloud \<^verbatim>\<open>a.xyz\<close> resampled without replacement, the normalised
  batch written to the log, and the end of the run at the first call of \<^verbatim>\<open>plot3\<close>.
\<close>

lemma script_example:
  "script 1 1 2 example_world example_args =
     ([Putenv ''CUDA_VISIBLE_DEVICES'' ''None'', System ''clear'',
       System ''cp Network_pcae_N2_LR1/log_dictionary.py .'', Import_module ''log_dictionary'',
       System ''rm log_dictionary.py'',
       Read_csv ''Network_pcae_N2_LR1/geometries_training.csv'',
       Read_csv ''Network_pcae_N2_LR1/geometries_testing.csv'',
       Random_choice 2 1 False [1], Random_choice 2 1 False [1],
       Read_csv ''b.xyz'', Random_choice 3 2 False [1, 2],
       Read_csv ''a.xyz'', Random_choice 2 2 False [1, 0],
       Read_csv ''Network_pcae_N2_LR1/normvalues.csv'',
       To_csv ''Network_pcae_N2_LR1/geometries_reconstruction.csv'' [''b.xyz'', ''a.xyz''],
       System ''mkdir Network_pcae_N2_LR1/point_cloud_interpolation'',
       Restore_graph ''Network_pcae_N2_LR1/pcae.meta'' ''Network_pcae_N2_LR1/'',
       Write_html ''Network_pcae_N2_LR1/point_cloud_interpolation/PC_0_reconstruction.html'',
       Call_plot3 ''Network_pcae_N2_LR1/point_cloud_interpolation/PC_00000_000.png'' 0 [0, 0, 1/2]],
      Inl TypeError)"
  unfolding script_def initialise_example
  by (simp add: run_steps top_dir_example preprocessing_example Let_def
      load_shapes_example[unfolded One_nat_def]
      normalise_example_batch visualise_example)

end
